theory Spec2Isabelle
  imports Main "HOL-Library.Sublist" "HOL-Library.Char_ord"
begin

section \<open>Strings\<close>

text \<open>
  A Go string is a sequence of bytes, here a \<open>string\<close> (a list of 8-bit characters); text
  in it is UTF-8. A rune is an \<open>int32\<close>, here an \<open>int\<close>.
\<close>

type_synonym rune = int

definition RuneError :: rune where
  "RuneError = 0xFFFD"

text \<open>
  \<open>utf8.DecodeRuneInString\<close>: the first rune of a string and its width in bytes. A byte
  that starts no well-formed sequence is \<open>RuneError\<close> of width 1. Where Go masks a byte
  to its payload bits (\<open>s0 & 0x1F\<close>, \<open>s1 & 0x3F\<close>), the byte is in a range where that is
  subtracting its marker (\<open>0xC0\<close>, \<open>0xE0\<close> or \<open>0xF0\<close> for the first byte, \<open>0x80\<close>
  for the others).
\<close>

definition DecodeRune :: "string \<Rightarrow> rune \<times> nat" where
  "DecodeRune s =
     (case map of_char s of
        [] \<Rightarrow> (RuneError, 0)
      | s0 # rest \<Rightarrow>
          if s0 < 0x80 then (s0, 1)
          else if s0 < 0xC2 \<or> 0xF4 < s0 then (RuneError, 1)
          else
            (let sz = (if s0 < 0xE0 then 2 else if s0 < 0xF0 then 3 else 4 :: nat);
                 lo = (if s0 = 0xE0 then 0xA0 else if s0 = 0xF0 then 0x90 else 0x80);
                 hi = (if s0 = 0xED then 0x9F else if s0 = 0xF4 then 0x8F else 0xBF)
             in if length s < sz then (RuneError, 1)
                else
                  (let s1 = rest ! 0 in
                   if s1 < lo \<or> hi < s1 then (RuneError, 1)
                   else if sz \<le> 2 then ((s0 - 0xC0) * 64 + (s1 - 0x80), 2)
                   else
                     (let s2 = rest ! 1 in
                      if s2 < 0x80 \<or> 0xBF < s2 then (RuneError, 1)
                      else if sz \<le> 3
                        then ((s0 - 0xE0) * 4096 + (s1 - 0x80) * 64 + (s2 - 0x80), 3)
                      else
                        (let s3 = rest ! 2 in
                         if s3 < 0x80 \<or> 0xBF < s3 then (RuneError, 1)
                         else ((s0 - 0xF0) * 262144 + (s1 - 0x80) * 4096 + (s2 - 0x80) * 64
                                 + (s3 - 0x80), 4))))))"

text \<open>The runes of a string, as \<open>for _, c := range s\<close> yields them.\<close>

function runes :: "string \<Rightarrow> rune list" where
  "runes [] = []"
| "runes (c # s) = fst (DecodeRune (c # s)) # runes (drop (snd (DecodeRune (c # s)) - 1) s)"
  by pat_completeness auto
termination
  by (relation "measure length") auto

text \<open>
  \<open>utf8.AppendRune\<close>, for a rune that is not negative: a surrogate or a rune beyond
  \<open>0x10FFFF\<close> is written as \<open>RuneError\<close>.
\<close>

definition EncodeRune :: "rune \<Rightarrow> string" where
  "EncodeRune r =
     (if r \<le> 0x7F then [char_of r]
      else if r \<le> 0x7FF then [char_of (0xC0 + r div 64), char_of (0x80 + r mod 64)]
      else if 0x10FFFF < r \<or> (0xD800 \<le> r \<and> r \<le> 0xDFFF) then [CHR 0xEF, CHR 0xBF, CHR 0xBD]
      else if r \<le> 0xFFFF
        then [char_of (0xE0 + r div 4096), char_of (0x80 + r div 64 mod 64),
              char_of (0x80 + r mod 64)]
      else [char_of (0xF0 + r div 262144), char_of (0x80 + r div 4096 mod 64),
            char_of (0x80 + r div 64 mod 64), char_of (0x80 + r mod 64)])"

text \<open>
  \<open>strings.Map mapping s\<close>: each rune of \<open>s\<close> is replaced by its image, and dropped when
  the image is negative. (A rune that the mapping leaves alone keeps its bytes, which
  are the bytes \<open>EncodeRune\<close> gives; an ill-formed byte counts as \<open>RuneError\<close>.)
\<close>

definition MapRunes :: "(rune \<Rightarrow> rune) \<Rightarrow> string \<Rightarrow> string" where
  "MapRunes mapping s =
     concat (map (\<lambda>r. if mapping r < 0 then [] else EncodeRune (mapping r)) (runes s))"

text \<open>
  \<open>unicode.ToLower\<close>. Up to \<open>0x7F\<close> the code is in the function itself. Above, the
  lower case is read from the case table of Go's package \<open>unicode\<close>, which is not part
  of this repository: the argument \<open>T\<close> stands for it, giving for a rune its lower-case
  rune, or the rune itself when it has none. That table sends two runes above \<open>0x7F\<close> to
  ASCII letters, \<open>U+0130\<close> to \<open>i\<close> and \<open>U+212A\<close> (the Kelvin sign) to \<open>k\<close>, and no other;
  these two are written out here, and an ASCII answer of \<open>T\<close> for another rune is not
  taken. Every function that lowers a string takes \<open>T\<close> as its first argument.
\<close>

definition toLowerRune :: "(rune \<Rightarrow> rune) \<Rightarrow> rune \<Rightarrow> rune" where
  "toLowerRune T r =
     (if r \<le> 0x7F then (if 0x41 \<le> r \<and> r \<le> 0x5A then r + 32 else r)
      else if r = 0x130 then 0x69
      else if r = 0x212A then 0x6B
      else if T r \<le> 0x7F then r
      else T r)"

text \<open>
  \<open>strings.ToLower\<close>: a string of ASCII bytes is lowered byte by byte, a byte in
  \<open>'A'..'Z'\<close> being moved by \<open>'a' - 'A'\<close>; any other string goes through
  \<open>strings.Map\<close> with \<open>unicode.ToLower\<close>.
\<close>

definition toLowerByte :: "char \<Rightarrow> char" where
  "toLowerByte c =
     (if CHR ''A'' \<le> c \<and> c \<le> CHR ''Z'' then char_of (of_char c + (32::nat)) else c)"

definition isASCII :: "string \<Rightarrow> bool" where
  "isASCII s \<longleftrightarrow> list_all (\<lambda>c. c < CHR 0x80) s"

definition ToLower :: "(rune \<Rightarrow> rune) \<Rightarrow> string \<Rightarrow> string" where
  "ToLower T s = (if isASCII s then map toLowerByte s else MapRunes (toLowerRune T) s)"

text \<open>
  \<open>strings.Replace s old new n\<close>: the first \<open>n\<close> non-overlapping occurrences of \<open>old\<close>,
  from the left, are replaced by \<open>new\<close>; a negative \<open>n\<close> sets no limit. The exporter
  calls it with a one-byte \<open>old\<close>; with an empty \<open>old\<close> (where Go inserts \<open>new\<close> between
  runes) this model returns \<open>s\<close>.
\<close>

function Replace :: "string \<Rightarrow> string \<Rightarrow> string \<Rightarrow> int \<Rightarrow> string" where
  "Replace [] old new n = []"
| "Replace (c # s) old new n =
     (if n = 0 \<or> old = [] then c # s
      else if prefix old (c # s)
        then new @ Replace (drop (length old) (c # s)) old new (n - 1)
        else c # Replace s old new n)"
  by pat_completeness auto
termination
  by (relation "measure (\<lambda>(s, old, new, n). length s)") (auto simp: neq_Nil_conv)

text \<open>\<open>strconv.FormatInt i 10\<close>: the decimal digits, with a minus sign below zero.\<close>

function digits :: "int \<Rightarrow> string" where
  "digits n =
     (if n < 10 then [char_of (48 + n)] else digits (n div 10) @ [char_of (48 + n mod 10)])"
  by pat_completeness auto
termination
  by (relation "measure nat") auto

declare digits.simps [simp del]

definition FormatInt :: "int \<Rightarrow> string" where
  "FormatInt i = (if i < 0 then CHR ''-'' # digits (- i) else digits i)"

text \<open>
  \<open>strconv.ParseInt s 10 64\<close>: an optional sign, then one or more decimal digits, and
  the value must fit an \<open>int64\<close>; \<open>None\<close> is the error return.
\<close>

definition isDigit :: "char \<Rightarrow> bool" where
  "isDigit c \<longleftrightarrow> CHR ''0'' \<le> c \<and> c \<le> CHR ''9''"

definition ParseUint :: "string \<Rightarrow> int option" where
  "ParseUint s =
     (if s = [] \<or> \<not> list_all isDigit s then None
      else Some (foldl (\<lambda>a c. 10 * a + (of_char c - 48)) 0 s))"

definition ParseInt :: "string \<Rightarrow> int option" where
  "ParseInt s =
     (case s of
        [] \<Rightarrow> None
      | c # r \<Rightarrow>
          (let neg = (c = CHR ''-'');
               s' = (if c = CHR ''+'' \<or> c = CHR ''-'' then r else s)
           in case ParseUint s' of
                None \<Rightarrow> None
              | Some un \<Rightarrow>
                  if \<not> neg \<and> un \<ge> 9223372036854775808 then None
                  else if neg \<and> un > 9223372036854775808 then None
                  else Some (if neg then - un else un)))"

text \<open>
  Case-insensitive equality of two strings, said without \<open>ToLower\<close>: the strings have
  the same length and at each position hold the same byte or the two cases of one
  letter of the alphabet.
\<close>

definition upperAZ :: string where
  "upperAZ = ''ABCDEFGHIJKLMNOPQRSTUVWXYZ''"

definition lowerAZ :: string where
  "lowerAZ = ''abcdefghijklmnopqrstuvwxyz''"

definition sameLetter :: "char \<Rightarrow> char \<Rightarrow> bool" where
  "sameLetter a b \<longleftrightarrow>
     a = b \<or> (a, b) \<in> set (zip upperAZ lowerAZ) \<or> (b, a) \<in> set (zip upperAZ lowerAZ)"

definition equalsIgnoringCase :: "string \<Rightarrow> string \<Rightarrow> bool" where
  "equalsIgnoringCase s t \<longleftrightarrow> list_all2 sameLetter s t"


section \<open>Errors, JSON values and the HTTP exchange\<close>

datatype error =
    RequestError
  | TransportError
  | ErrorString string
  | ReadError
  | SyntaxError
  | UnmarshalTypeError string

text \<open>
  \<open>RequestError\<close> is the error of \<open>http.NewRequest\<close>, \<open>TransportError\<close> that of
  \<open>HTTPClient.Do\<close>, \<open>ErrorString\<close> a value of \<open>errors.New\<close>, \<open>ReadError\<close> that of
  \<open>ioutil.ReadAll\<close>; \<open>SyntaxError\<close> and \<open>UnmarshalTypeError\<close> are the two errors of
  \<open>json.Unmarshal\<close> that can arise here. The decode errors are the last two.
\<close>

fun isDecodeError :: "error \<Rightarrow> bool" where
  "isDecodeError SyntaxError = True"
| "isDecodeError (UnmarshalTypeError v) = True"
| "isDecodeError e = False"

text \<open>
  A JSON value as \<open>encoding/json\<close> scans it. A number keeps its literal text, since the
  decoder hands that text to \<open>strconv.ParseInt\<close>; a string holds the unquoted bytes; an
  object keeps its members in order, duplicates included.
\<close>

datatype json =
    JNull
  | JBool bool
  | JNumber string
  | JString string
  | JArray "json list"
  | JObject "(string \<times> json) list"

text \<open>
  A response body that could be read is either not a JSON text or the JSON value it
  denotes; a server's reply is absent (the transport failed) or has a status code and
  a body.
\<close>

datatype payload = NotJSON | Doc json

datatype body = Unreadable | Readable payload

datatype reply = NoResponse | Response nat body

record Request =
  httpMethod :: string
  url :: string
  accept :: string
  authUser :: string
  authPassword :: string

text \<open>
  What \<open>Do\<close> depends on outside the process: whether \<open>net/url\<close> accepts the request
  URL, and what comes back for a request.
\<close>

record Network =
  parsesURL :: "string \<Rightarrow> bool"
  roundTrip :: "Request \<Rightarrow> reply"


section \<open>The exporter's data\<close>

record Gauge =
  fqName :: string
  val :: int

text \<open>
  A gauge holds a \<open>float64\<close>. Every value the exporter stores is the conversion of an
  integer, and the model keeps the integer that the \<open>float64\<close> is. The constants 0 and 1
  convert exactly, and so do a slice length and a count of agents: a slice of
  \<open>BambooAgent\<close>, 48 bytes each, that fits the address space is shorter than \<open>2^53\<close>. An
  \<open>int64\<close> read from the wire may be larger: \<open>float64\<close> rounds it to 53 significant
  bits, to nearest and to even on a tie.
\<close>

function excess53 :: "int \<Rightarrow> nat" where
  "excess53 a = (if a < 9007199254740992 then 0 else Suc (excess53 (a div 2)))"
  by pat_completeness auto
termination
  by (relation "measure nat") auto

declare excess53.simps [simp del]

definition float64 :: "int \<Rightarrow> int" where
  "float64 n =
     (let a = \<bar>n\<bar>; k = 2 ^ excess53 a; q = a div k; r = a mod k;
          q' = (if k < 2 * r \<or> (2 * r = k \<and> odd q) then q + 1 else q)
      in sgn n * (q' * k))"

definition Set :: "Gauge \<Rightarrow> int \<Rightarrow> Gauge" where
  "Set g v = g\<lparr>val := v\<rparr>"

record Exporter =
  URI :: string
  HTTPClient :: Network
  UserName :: string
  Password :: string
  up :: Gauge
  isRunning :: Gauge
  agentCountTotal :: Gauge
  agentCountBusy :: Gauge
  buildQueue :: Gauge

record BambooAgent =
  AgentId :: int
  HostName :: string
  IsRemote :: string
  IsActive :: bool
  IsEnabled :: bool
  IsWorking :: bool

type_synonym BambooAgents = "BambooAgent list"

record QueuedBuildsT =
  Size :: int
  StartIndex :: int
  MaxResult :: int

record BambooQueue =
  QueuedBuilds :: QueuedBuildsT

record BambooVersion =
  Build :: string
  State :: string
  Version :: string

text \<open>The zero values of \<open>var output T\<close>.\<close>

definition zeroAgent :: BambooAgent where
  "zeroAgent = \<lparr>AgentId = 0, HostName = [], IsRemote = [], IsActive = False,
                 IsEnabled = False, IsWorking = False\<rparr>"

definition zeroQueue :: BambooQueue where
  "zeroQueue = \<lparr>QueuedBuilds = \<lparr>Size = 0, StartIndex = 0, MaxResult = 0\<rparr>\<rparr>"

definition zeroVersion :: BambooVersion where
  "zeroVersion = \<lparr>Build = [], State = [], Version = []\<rparr>"


section \<open>Decoding JSON into the exporter's structs\<close>

text \<open>
  \<open>json.Unmarshal\<close> first checks that the whole input is one JSON text, and on a syntax
  error returns without touching the target. Then it walks the value. Where a JSON value
  does not fit the Go type it is stored into, the decoder records an
  \<open>UnmarshalTypeError\<close> (only the first one is kept), leaves that target as it is and
  goes on with the rest, so the target may be partly filled when the call returns an
  error. \<open>null\<close> stored into a string, a number, a boolean or a struct changes nothing
  and is no error. An object member whose key matches no field is skipped.
\<close>

definition saveError :: "error \<Rightarrow> error option \<Rightarrow> error option" where
  "saveError err saved = (case saved of None \<Rightarrow> Some err | Some first \<Rightarrow> Some first)"

fun valueKind :: "json \<Rightarrow> string" where
  "valueKind JNull = ''null''"
| "valueKind (JBool b) = ''bool''"
| "valueKind (JNumber lit) = ''number''"
| "valueKind (JString s) = ''string''"
| "valueKind (JArray xs) = ''array''"
| "valueKind (JObject ms) = ''object''"

fun storeString :: "json \<Rightarrow> string \<times> error option \<Rightarrow> string \<times> error option" where
  "storeString (JString s) (v, saved) = (s, saved)"
| "storeString JNull (v, saved) = (v, saved)"
| "storeString j (v, saved) = (v, saveError (UnmarshalTypeError (valueKind j)) saved)"

fun storeBool :: "json \<Rightarrow> bool \<times> error option \<Rightarrow> bool \<times> error option" where
  "storeBool (JBool b) (v, saved) = (b, saved)"
| "storeBool JNull (v, saved) = (v, saved)"
| "storeBool j (v, saved) = (v, saveError (UnmarshalTypeError (valueKind j)) saved)"

fun storeInt64 :: "json \<Rightarrow> int \<times> error option \<Rightarrow> int \<times> error option" where
  "storeInt64 (JNumber lit) (v, saved) =
     (case ParseInt lit of
        Some n \<Rightarrow> (n, saved)
      | None \<Rightarrow> (v, saveError (UnmarshalTypeError (''number '' @ lit)) saved))"
| "storeInt64 JNull (v, saved) = (v, saved)"
| "storeInt64 j (v, saved) = (v, saveError (UnmarshalTypeError (valueKind j)) saved)"

text \<open>
  A key selects the field whose \<open>json\<close> tag it equals, or else the first field whose tag
  it equals under the decoder's folding: ASCII letters without regard to case, and
  besides \<open>U+017F\<close> (long s, bytes C5 BF) for \<open>s\<close> and \<open>U+212A\<close> (Kelvin sign, bytes
  E2 84 AA) for \<open>k\<close>. The tags here are ASCII. Within each struct no two tags are equal
  under the folding, so a key can select one field at most and the chain of tests below
  finds it.
\<close>

function foldKey :: "string \<Rightarrow> string" where
  "foldKey [] = []"
| "foldKey (c # s) =
     (if c = CHR 0xC5 \<and> take 1 s = [CHR 0xBF] then CHR ''s'' # foldKey (drop 1 s)
      else if c = CHR 0xE2 \<and> take 2 s = [CHR 0x84, CHR 0xAA]
        then CHR ''k'' # foldKey (drop 2 s)
      else toLowerByte c # foldKey s)"
  by pat_completeness auto
termination
  by (relation "measure length") auto

definition equalFold :: "string \<Rightarrow> string \<Rightarrow> bool" where
  "equalFold tag key \<longleftrightarrow> map toLowerByte tag = foldKey key"

definition agentMember :: "BambooAgent \<times> error option \<Rightarrow> string \<times> json \<Rightarrow> BambooAgent \<times> error option" where
  "agentMember acc m =
     (let (a, saved) = acc; (key, j) = m in
      if equalFold ''id'' key
        then (let (x, saved') = storeInt64 j (AgentId a, saved) in (a\<lparr>AgentId := x\<rparr>, saved'))
      else if equalFold ''name'' key
        then (let (x, saved') = storeString j (HostName a, saved) in (a\<lparr>HostName := x\<rparr>, saved'))
      else if equalFold ''type'' key
        then (let (x, saved') = storeString j (IsRemote a, saved) in (a\<lparr>IsRemote := x\<rparr>, saved'))
      else if equalFold ''active'' key
        then (let (x, saved') = storeBool j (IsActive a, saved) in (a\<lparr>IsActive := x\<rparr>, saved'))
      else if equalFold ''enabled'' key
        then (let (x, saved') = storeBool j (IsEnabled a, saved) in (a\<lparr>IsEnabled := x\<rparr>, saved'))
      else if equalFold ''busy'' key
        then (let (x, saved') = storeBool j (IsWorking a, saved) in (a\<lparr>IsWorking := x\<rparr>, saved'))
      else (a, saved))"

fun storeAgent :: "json \<Rightarrow> BambooAgent \<times> error option \<Rightarrow> BambooAgent \<times> error option" where
  "storeAgent (JObject ms) (a, saved) = foldl agentMember (a, saved) ms"
| "storeAgent JNull (a, saved) = (a, saved)"
| "storeAgent j (a, saved) = (a, saveError (UnmarshalTypeError (valueKind j)) saved)"

text \<open>
  An array stored into a slice: the slice gets one element for each element of the array,
  each decoded into a fresh zero value, whether or not that element fits. \<open>null\<close> gives
  the nil slice. The model does not tell a nil slice from an empty one: the exporter only
  takes its length and ranges over it. The slice decoded into is the nil slice of
  \<open>GetAgents\<close>, so no earlier element is reused.
\<close>

definition agentElement :: "BambooAgents \<times> error option \<Rightarrow> json \<Rightarrow> BambooAgents \<times> error option" where
  "agentElement acc j =
     (let (out, saved) = acc; (a, saved') = storeAgent j (zeroAgent, saved)
      in (out @ [a], saved'))"

fun storeAgents :: "json \<Rightarrow> BambooAgents \<times> error option \<Rightarrow> BambooAgents \<times> error option" where
  "storeAgents (JArray xs) (out, saved) = foldl agentElement ([], saved) xs"
| "storeAgents JNull (out, saved) = ([], saved)"
| "storeAgents j (out, saved) = (out, saveError (UnmarshalTypeError (valueKind j)) saved)"

definition queuedBuildsMember :: "QueuedBuildsT \<times> error option \<Rightarrow> string \<times> json \<Rightarrow> QueuedBuildsT \<times> error option" where
  "queuedBuildsMember acc m =
     (let (q, saved) = acc; (key, j) = m in
      if equalFold ''size'' key
        then (let (x, saved') = storeInt64 j (Size q, saved) in (q\<lparr>Size := x\<rparr>, saved'))
      else if equalFold ''start-index'' key
        then (let (x, saved') = storeInt64 j (StartIndex q, saved) in (q\<lparr>StartIndex := x\<rparr>, saved'))
      else if equalFold ''max-result'' key
        then (let (x, saved') = storeInt64 j (MaxResult q, saved) in (q\<lparr>MaxResult := x\<rparr>, saved'))
      else (q, saved))"

fun storeQueuedBuilds :: "json \<Rightarrow> QueuedBuildsT \<times> error option \<Rightarrow> QueuedBuildsT \<times> error option" where
  "storeQueuedBuilds (JObject ms) (q, saved) = foldl queuedBuildsMember (q, saved) ms"
| "storeQueuedBuilds JNull (q, saved) = (q, saved)"
| "storeQueuedBuilds j (q, saved) = (q, saveError (UnmarshalTypeError (valueKind j)) saved)"

definition queueMember :: "BambooQueue \<times> error option \<Rightarrow> string \<times> json \<Rightarrow> BambooQueue \<times> error option" where
  "queueMember acc m =
     (let (q, saved) = acc; (key, j) = m in
      if equalFold ''queuedBuilds'' key
        then (let (x, saved') = storeQueuedBuilds j (QueuedBuilds q, saved)
              in (q\<lparr>QueuedBuilds := x\<rparr>, saved'))
      else (q, saved))"

fun storeQueue :: "json \<Rightarrow> BambooQueue \<times> error option \<Rightarrow> BambooQueue \<times> error option" where
  "storeQueue (JObject ms) (q, saved) = foldl queueMember (q, saved) ms"
| "storeQueue JNull (q, saved) = (q, saved)"
| "storeQueue j (q, saved) = (q, saveError (UnmarshalTypeError (valueKind j)) saved)"

definition versionMember :: "BambooVersion \<times> error option \<Rightarrow> string \<times> json \<Rightarrow> BambooVersion \<times> error option" where
  "versionMember acc m =
     (let (v, saved) = acc; (key, j) = m in
      if equalFold ''buildNumber'' key
        then (let (x, saved') = storeString j (Build v, saved) in (v\<lparr>Build := x\<rparr>, saved'))
      else if equalFold ''state'' key
        then (let (x, saved') = storeString j (State v, saved) in (v\<lparr>State := x\<rparr>, saved'))
      else if equalFold ''version'' key
        then (let (x, saved') = storeString j (Version v, saved) in (v\<lparr>Version := x\<rparr>, saved'))
      else (v, saved))"

fun storeVersion :: "json \<Rightarrow> BambooVersion \<times> error option \<Rightarrow> BambooVersion \<times> error option" where
  "storeVersion (JObject ms) (v, saved) = foldl versionMember (v, saved) ms"
| "storeVersion JNull (v, saved) = (v, saved)"
| "storeVersion j (v, saved) = (v, saveError (UnmarshalTypeError (valueKind j)) saved)"

text \<open>\<open>json.Unmarshal request &output\<close> at each of the three target types.\<close>

definition UnmarshalAgents :: "payload \<Rightarrow> BambooAgents \<Rightarrow> BambooAgents \<times> error option" where
  "UnmarshalAgents request output =
     (case request of NotJSON \<Rightarrow> (output, Some SyntaxError) | Doc j \<Rightarrow> storeAgents j (output, None))"

definition UnmarshalQueue :: "payload \<Rightarrow> BambooQueue \<Rightarrow> BambooQueue \<times> error option" where
  "UnmarshalQueue request output =
     (case request of NotJSON \<Rightarrow> (output, Some SyntaxError) | Doc j \<Rightarrow> storeQueue j (output, None))"

definition UnmarshalVersion :: "payload \<Rightarrow> BambooVersion \<Rightarrow> BambooVersion \<times> error option" where
  "UnmarshalVersion request output =
     (case request of NotJSON \<Rightarrow> (output, Some SyntaxError) | Doc j \<Rightarrow> storeVersion j (output, None))"


section \<open>The upstream client\<close>

definition Do :: "Exporter \<Rightarrow> string \<Rightarrow> error + payload" where
  "Do e endpoint =
     (let target = URI e @ endpoint @ ''?os_authType=basic'' in
      if \<not> parsesURL (HTTPClient e) target then Inl RequestError
      else
        (case roundTrip (HTTPClient e)
                \<lparr>httpMethod = ''GET'', url = target, accept = ''application/json'',
                 authUser = UserName e, authPassword = Password e\<rparr> of
           NoResponse \<Rightarrow> Inl TransportError
         | Response statusCode b \<Rightarrow>
             if statusCode \<noteq> 200
               then Inl (ErrorString (''cannot access '' @ endpoint
                            @ '' endpoint do you have correct permissions''))
             else (case b of Unreadable \<Rightarrow> Inl ReadError | Readable output \<Rightarrow> Inr output)))"

text \<open>
  Each accessor returns its \<open>output\<close> together with the error, as the Go functions do:
  the zero value when \<open>Do\<close> fails, and whatever \<open>json.Unmarshal\<close> left in \<open>output\<close>
  otherwise.
\<close>

definition GetAgents :: "Exporter \<Rightarrow> BambooAgents \<times> error option" where
  "GetAgents e =
     (let output = [] in
      case Do e ''/rest/api/latest/agent'' of
        Inl err \<Rightarrow> (output, Some err)
      | Inr request \<Rightarrow> UnmarshalAgents request output)"

definition GetQueue :: "Exporter \<Rightarrow> BambooQueue \<times> error option" where
  "GetQueue e =
     (let output = zeroQueue in
      case Do e ''/rest/api/latest/queue'' of
        Inl err \<Rightarrow> (output, Some err)
      | Inr request \<Rightarrow> UnmarshalQueue request output)"

definition GetVersion :: "Exporter \<Rightarrow> BambooVersion \<times> error option" where
  "GetVersion e =
     (let output = zeroVersion in
      case Do e ''/rest/api/latest/info'' of
        Inl err \<Rightarrow> (output, Some err)
      | Inr request \<Rightarrow> UnmarshalVersion request output)"


section \<open>The collector\<close>

text \<open>
  What a collector sends on the channel. A gauge sent with \<open>ch <- e.g\<close> is read by the
  registry after the send; within one \<open>Collect\<close> no gauge is set again after it has been
  sent, so the sample is the gauge as it is at the send. (Two \<open>Collect\<close> calls running
  at once on the same exporter are outside this model.)
\<close>

record Metric =
  metricName :: string
  labels :: "(string \<times> string) list"
  metricValue :: int

record Desc =
  descName :: string
  variableLabels :: "string list"

definition BuildFQName :: "string \<Rightarrow> string \<Rightarrow> string \<Rightarrow> string" where
  "BuildFQName namespace subsystem name =
     (if name = [] then []
      else if namespace \<noteq> [] \<and> subsystem \<noteq> [] then namespace @ ''_'' @ subsystem @ ''_'' @ name
      else if namespace \<noteq> [] then namespace @ ''_'' @ name
      else if subsystem \<noteq> [] then subsystem @ ''_'' @ name
      else name)"

definition nameSpace :: string where
  "nameSpace = ''bamboo''"

definition buildAgent :: Desc where
  "buildAgent =
     \<lparr>descName = BuildFQName nameSpace ''agent'' ''busy'',
      variableLabels = [''hostName'', ''isRemote'', ''isEnabled'', ''isActive'', ''id'']\<rparr>"

definition NewGauge :: "string \<Rightarrow> string \<Rightarrow> string \<Rightarrow> Gauge" where
  "NewGauge namespace subsystem name = \<lparr>fqName = BuildFQName namespace subsystem name, val = 0\<rparr>"

text \<open>
  \<open>NewExporter\<close> builds the HTTP client itself; the model takes the network the client
  talks to as an argument.
\<close>

definition NewExporter :: "Network \<Rightarrow> string \<Rightarrow> string \<Rightarrow> string \<Rightarrow> Exporter" where
  "NewExporter net uri user password =
     \<lparr>URI = uri, HTTPClient = net, UserName = user, Password = password,
      up = NewGauge nameSpace [] ''up'',
      isRunning = NewGauge nameSpace [] ''running'',
      agentCountTotal = NewGauge nameSpace ''agent'' ''count_total'',
      agentCountBusy = NewGauge nameSpace ''agent'' ''count_busy'',
      buildQueue = NewGauge nameSpace ''queue'' ''count''\<rparr>"

definition sendGauge :: "Gauge \<Rightarrow> Metric" where
  "sendGauge g = \<lparr>metricName = fqName g, labels = [], metricValue = val g\<rparr>"

text \<open>
  \<open>MustNewConstMetric\<close> panics when the number of label values differs from the number
  of the descriptor's labels. \<open>Collect\<close> passes five values to the five labels of
  \<open>buildAgent\<close>; the model pairs them.
\<close>

definition MustNewConstMetric :: "Desc \<Rightarrow> int \<Rightarrow> string list \<Rightarrow> Metric" where
  "MustNewConstMetric desc v labelValues =
     \<lparr>metricName = descName desc, labels = zip (variableLabels desc) labelValues,
      metricValue = v\<rparr>"

text \<open>
  The state of one \<open>Collect\<close>: the exporter with its gauges, the variable \<open>err\<close>
  (assigned by each of the three calls in turn), the metrics sent on the channel so far,
  and the errors logged so far.
\<close>

record Scrape =
  exporter :: Exporter
  err :: "error option"
  ch :: "Metric list"
  logged :: "error list"

definition logError :: "error option \<Rightarrow> error list \<Rightarrow> error list" where
  "logError failure lg = (case failure of None \<Rightarrow> lg | Some x \<Rightarrow> lg @ [x])"

text \<open>The body of the loop over \<open>agentList\<close>: one row is sent, \<open>busyAgents\<close> is updated.\<close>

definition agentRow :: "(rune \<Rightarrow> rune) \<Rightarrow> BambooAgent \<Rightarrow> Metric" where
  "agentRow T agent =
     (let hostName = Replace (ToLower T (HostName agent)) '' '' ''_'' (- 1);
          isActive = ''no'';
          isEnabled = ''no'';
          isRemote = ''no'';
          isWorking = 0;
          isWorking = (if IsWorking agent then 1 else isWorking);
          isActive = (if IsActive agent then ''yes'' else isActive);
          isEnabled = (if IsEnabled agent then ''yes'' else isEnabled);
          isRemote = (if ToLower T (IsRemote agent) = ''remote'' then ''yes'' else isRemote)
      in MustNewConstMetric buildAgent isWorking
           [hostName, isRemote, isEnabled, isActive, FormatInt (AgentId agent)])"

definition agentStep ::
  "(rune \<Rightarrow> rune) \<Rightarrow> Metric list \<times> int \<Rightarrow> BambooAgent \<Rightarrow> Metric list \<times> int" where
  "agentStep T acc agent =
     (let (out, busyAgents) = acc;
          busyAgents = (if IsWorking agent then busyAgents + 1 else busyAgents)
      in (out @ [agentRow T agent], busyAgents))"

text \<open>
  \<open>Collect_Exporter\<close> is the method \<open>Collect\<close> of \<open>Exporter\<close> (HOL has a \<open>Collect\<close> of its
  own). It is four blocks run one after the other on this state: the server state
  (from \<open>e.isRunning.Set(0)\<close> to \<open>ch <- e.isRunning\<close>), the agents (from
  \<open>e.agentCountTotal.Set(0)\<close> to \<open>ch <- e.agentCountBusy\<close>), the queue (from
  \<open>e.buildQueue.Set(0)\<close> to \<open>ch <- e.buildQueue\<close>), and the final test of \<open>err\<close>
  with \<open>ch <- e.up\<close>.
\<close>

definition collectRunning :: "(rune \<Rightarrow> rune) \<Rightarrow> Scrape \<Rightarrow> Scrape" where
  "collectRunning T s =
     (let e = exporter s;
          e = e\<lparr>isRunning := Set (isRunning e) 0\<rparr>;
          (version, failure) = GetVersion e;
          lg = logError failure (logged s);
          e = (if ToLower T (State version) = ''running''
               then e\<lparr>isRunning := Set (isRunning e) 1\<rparr> else e)
      in \<lparr>exporter = e, err = failure, ch = ch s @ [sendGauge (isRunning e)], logged = lg\<rparr>)"

definition collectAgents :: "(rune \<Rightarrow> rune) \<Rightarrow> Scrape \<Rightarrow> Scrape" where
  "collectAgents T s =
     (let e = exporter s;
          e = e\<lparr>agentCountTotal := Set (agentCountTotal e) 0\<rparr>;
          (agentList, failure) = GetAgents e;
          lg = logError failure (logged s);
          e = e\<lparr>agentCountTotal := Set (agentCountTotal e) (int (length agentList))\<rparr>;
          out = ch s @ [sendGauge (agentCountTotal e)];
          busyAgents = 0;
          e = e\<lparr>agentCountBusy := Set (agentCountBusy e) busyAgents\<rparr>;
          (out, busyAgents) = foldl (agentStep T) (out, busyAgents) agentList;
          e = e\<lparr>agentCountBusy := Set (agentCountBusy e) busyAgents\<rparr>
      in \<lparr>exporter = e, err = failure, ch = out @ [sendGauge (agentCountBusy e)], logged = lg\<rparr>)"

definition collectQueue :: "Scrape \<Rightarrow> Scrape" where
  "collectQueue s =
     (let e = exporter s;
          e = e\<lparr>buildQueue := Set (buildQueue e) 0\<rparr>;
          (queue, failure) = GetQueue e;
          lg = logError failure (logged s);
          e = e\<lparr>buildQueue := Set (buildQueue e) (float64 (Size (QueuedBuilds queue)))\<rparr>
      in \<lparr>exporter = e, err = failure, ch = ch s @ [sendGauge (buildQueue e)], logged = lg\<rparr>)"

definition collectUp :: "Scrape \<Rightarrow> Scrape" where
  "collectUp s =
     (let e = exporter s;
          e = (if err s \<noteq> None then e\<lparr>up := Set (up e) 0\<rparr> else e)
      in s\<lparr>exporter := e, ch := ch s @ [sendGauge (up e)]\<rparr>)"

definition Collect_Exporter :: "(rune \<Rightarrow> rune) \<Rightarrow> Exporter \<Rightarrow> Scrape" where
  "Collect_Exporter T e =
     (let s = \<lparr>exporter = e\<lparr>up := Set (up e) 1\<rparr>, err = None, ch = [], logged = []\<rparr>
      in collectUp (collectQueue (collectAgents T (collectRunning T s))))"


section \<open>Reading the metrics of a scrape\<close>

text \<open>
  The gauge names that \<open>NewExporter\<close> gives, which \<open>Set\<close> never changes: the exporters
  of the program are those with these names.
\<close>

definition gaugeNames :: "Exporter \<Rightarrow> string list" where
  "gaugeNames e =
     map fqName [up e, isRunning e, agentCountTotal e, agentCountBusy e, buildQueue e]"

definition standardNames :: "Exporter \<Rightarrow> bool" where
  "standardNames e \<longleftrightarrow>
     gaugeNames e = [''bamboo_up'', ''bamboo_running'', ''bamboo_agent_count_total'',
                     ''bamboo_agent_count_busy'', ''bamboo_queue_count'']"

text \<open>
  The values of the samples sent under a name, in the order sent; the rows sent for the
  agents; the value of a label of a row.
\<close>

definition gaugeSamples :: "string \<Rightarrow> Metric list \<Rightarrow> int list" where
  "gaugeSamples n ms = map metricValue (filter (\<lambda>m. metricName m = n) ms)"

definition agentRows :: "Metric list \<Rightarrow> Metric list" where
  "agentRows ms = filter (\<lambda>m. metricName m = ''bamboo_agent_busy'') ms"

definition label :: "string \<Rightarrow> Metric \<Rightarrow> string option" where
  "label k m = map_of (labels m) k"

text \<open>
  The host name label in the words of the specification: each rune of the host name is
  replaced, a space by an underscore and any other rune by its lower-case rune. For a
  host name of ASCII bytes this is said without \<open>unicode.ToLower\<close>: each capital letter
  becomes the small letter at the same place of the alphabet.
\<close>

definition hostNameLabel :: "(rune \<Rightarrow> rune) \<Rightarrow> string \<Rightarrow> string" where
  "hostNameLabel T s = MapRunes (\<lambda>r. if r = 0x20 then 0x5F else toLowerRune T r) s"

definition lowerOf :: "char \<Rightarrow> char" where
  "lowerOf c = (case map_of (zip upperAZ lowerAZ) c of Some l \<Rightarrow> l | None \<Rightarrow> c)"

definition asciiHostNameLabel :: "string \<Rightarrow> string" where
  "asciiHostNameLabel s = map (\<lambda>c. if c = CHR '' '' then CHR ''_'' else lowerOf c) s"

text \<open>A JSON value that is neither a number nor \<open>null\<close>.\<close>

fun nonNumeric :: "json \<Rightarrow> bool" where
  "nonNumeric (JNumber lit) = False"
| "nonNumeric JNull = False"
| "nonNumeric j = True"

text \<open>
  What the decoder may have saved: nothing, or a type error. A JSON value that
  \<open>storeInt64\<close> takes without an error. A member of a \<open>queuedBuilds\<close> object that
  stores nothing into \<open>Size\<close> and raises no error: a size that is \<open>null\<close>, a start index
  or a maximum that fits, or a member of another name. A \<open>queuedBuilds\<close> value with only
  such members.
\<close>

fun typeError :: "error option \<Rightarrow> bool" where
  "typeError (Some (UnmarshalTypeError v)) = True"
| "typeError saved = False"

fun fitsInt64 :: "json \<Rightarrow> bool" where
  "fitsInt64 (JNumber lit) = (ParseInt lit \<noteq> None)"
| "fitsInt64 JNull = True"
| "fitsInt64 j = False"

definition quietMember :: "string \<times> json \<Rightarrow> bool" where
  "quietMember m =
     (let (k, j) = m in
      if equalFold ''size'' k then j = JNull
      else if equalFold ''start-index'' k \<or> equalFold ''max-result'' k then fitsInt64 j
      else True)"

fun sizeLeftOut :: "json \<Rightarrow> bool" where
  "sizeLeftOut (JObject qs) = list_all quietMember qs"
| "sizeLeftOut JNull = True"
| "sizeLeftOut j = False"

definition sizeLeftOutIn :: "string \<times> json \<Rightarrow> bool" where
  "sizeLeftOutIn m = (let (k, j) = m in if equalFold ''queuedBuilds'' k then sizeLeftOut j else True)"

text \<open>Two exporters that send the same requests to the same network.\<close>

definition sameUpstream :: "Exporter \<Rightarrow> Exporter \<Rightarrow> bool" where
  "sameUpstream e e' \<longleftrightarrow>
     URI e = URI e' \<and> HTTPClient e = HTTPClient e' \<and> UserName e = UserName e'
     \<and> Password e = Password e'"


section \<open>Concrete upstreams\<close>

text \<open>
  A Bamboo server at \<open>http://bamboo-uri\<close> that answers the three endpoints with the
  given replies and anything else with 404.
\<close>

definition bamboo :: "reply \<Rightarrow> reply \<Rightarrow> reply \<Rightarrow> Network" where
  "bamboo info agents queue =
     \<lparr>parsesURL = (\<lambda>u. True),
      roundTrip = (\<lambda>r.
        if url r = ''http://bamboo-uri/rest/api/latest/info?os_authType=basic'' then info
        else if url r = ''http://bamboo-uri/rest/api/latest/agent?os_authType=basic'' then agents
        else if url r = ''http://bamboo-uri/rest/api/latest/queue?os_authType=basic'' then queue
        else Response 404 (Readable NotJSON))\<rparr>"

definition ok :: "json \<Rightarrow> reply" where
  "ok j = Response 200 (Readable (Doc j))"

definition exporterAt :: "Network \<Rightarrow> Exporter" where
  "exporterAt net = NewExporter net ''http://bamboo-uri'' ''root'' ''1234''"

text \<open>
  The rows of Unicode's case table for the capital letters of Latin-1 (\<open>U+00C0\<close> to
  \<open>U+00DE\<close> without the multiplication sign), each 32 below its small letter.
\<close>

definition latin1 :: "rune \<Rightarrow> rune" where
  "latin1 r = (if 0xC0 \<le> r \<and> r \<le> 0xDE \<and> r \<noteq> 0xD7 then r + 32 else r)"

text \<open>
  The scenario of the specification: two agents, the first remote and busy, a queue of
  size 2, and the state \<open>Running\<close>.
\<close>

definition agentA :: json where
  "agentA = JObject [(''id'', JNumber ''1''), (''name'', JString ''A''),
     (''type'', JString ''remote''), (''active'', JBool True), (''enabled'', JBool True),
     (''busy'', JBool True)]"

definition agentB :: json where
  "agentB = JObject [(''id'', JNumber ''2''), (''name'', JString ''B''),
     (''type'', JString ''local''), (''active'', JBool False), (''enabled'', JBool True),
     (''busy'', JBool False)]"

definition infoRunning :: json where
  "infoRunning = JObject [(''version'', JString ''6.2.1''), (''buildNumber'', JString ''60204''),
     (''state'', JString ''Running'')]"

definition queueOfTwo :: json where
  "queueOfTwo = JObject [(''queuedBuilds'', JObject [(''size'', JNumber ''2''),
     (''start-index'', JNumber ''0''), (''max-result'', JNumber ''2'')])]"

definition scenario :: Exporter where
  "scenario = exporterAt (bamboo (ok infoRunning) (ok (JArray [agentA, agentB])) (ok queueOfTwo))"

text \<open>The info endpoint answers 500; agents and queue are as in the scenario.\<close>

definition infoDown :: Exporter where
  "infoDown =
     exporterAt (bamboo (Response 500 (Readable NotJSON)) (ok (JArray [agentA, agentB]))
                   (ok queueOfTwo))"

text \<open>
  The agents endpoint answers
  \<^verbatim>\<open>[{"id":7,"name":"Build Node 1","type":"Remote","active":true,"enabled":true,"busy":"no"}]\<close>:
  the last member of the one agent is a string where a boolean is expected.
\<close>

definition agentBusyString :: json where
  "agentBusyString = JObject [(''id'', JNumber ''7''), (''name'', JString ''Build Node 1''),
     (''type'', JString ''Remote''), (''active'', JBool True), (''enabled'', JBool True),
     (''busy'', JString ''no'')]"

definition agentsMistyped :: Exporter where
  "agentsMistyped =
     exporterAt (bamboo (ok infoRunning) (ok (JArray [agentBusyString])) (ok queueOfTwo))"

text \<open>
  The info endpoint answers \<^verbatim>\<open>{"state":"RUNNING","buildNumber":60204}\<close>: the build
  number is a number where a string is expected.
\<close>

definition infoMistyped :: Exporter where
  "infoMistyped =
     exporterAt (bamboo (ok (JObject [(''state'', JString ''RUNNING''),
                                      (''buildNumber'', JNumber ''60204'')]))
                   (ok (JArray [agentA, agentB])) (ok queueOfTwo))"

text \<open>
  One agent named \<open>ECOLE Z\<close> with an acute accent on the first letter (\<open>U+00C9\<close>, bytes
  C3 89), of type \<open>REMOTE\<close>.
\<close>

definition agentEcole :: json where
  "agentEcole = JObject [(''id'', JNumber ''9''),
     (''name'', JString ([CHR 0xC3, CHR 0x89] @ ''COLE Z'')),
     (''type'', JString ''REMOTE''), (''active'', JBool True), (''enabled'', JBool True),
     (''busy'', JBool True)]"

definition ecole :: Exporter where
  "ecole = exporterAt (bamboo (ok infoRunning) (ok (JArray [agentEcole])) (ok queueOfTwo))"

text \<open>
  Queue answers: \<^verbatim>\<open>{"queuedBuilds":{"start-index":0,"max-result":25}}\<close> has no size,
  and \<^verbatim>\<open>{"queuedBuilds":{"size":"2"}}\<close> has a string for it.
\<close>

definition queueNoSize :: Exporter where
  "queueNoSize =
     exporterAt (bamboo (ok infoRunning) (ok (JArray [agentA, agentB]))
       (ok (JObject [(''queuedBuilds'',
              JObject [(''start-index'', JNumber ''0''), (''max-result'', JNumber ''25'')])])))"

definition queueSizeString :: Exporter where
  "queueSizeString =
     exporterAt (bamboo (ok infoRunning) (ok (JArray [agentA, agentB]))
       (ok (JObject [(''queuedBuilds'', JObject [(''size'', JString ''2'')])])))"

text \<open>
  \<^verbatim>\<open>{"queuedBuilds":{"\u017fize":4}}\<close>: the key is \<open>size\<close> written with a long s.
\<close>

definition queueLongS :: Exporter where
  "queueLongS =
     exporterAt (bamboo (ok infoRunning) (ok (JArray [agentA, agentB]))
       (ok (JObject [(''queuedBuilds'',
              JObject [([CHR 0xC5, CHR 0xBF] @ ''ize'', JNumber ''4'')])])))"

text \<open>
  \<open>U+03D2\<close>, the Greek upsilon with hook symbol (bytes CF 92), is an uppercase letter of
  Unicode (general category Lu) to which the case table gives no lower case. One agent
  has it for its host name.
\<close>

definition upsilonHook :: rune where
  "upsilonHook = 0x3D2"

definition agentUpsilon :: json where
  "agentUpsilon = JObject [(''id'', JNumber ''3''), (''name'', JString [CHR 0xCF, CHR 0x92]),
     (''type'', JString ''local''), (''active'', JBool True), (''enabled'', JBool True),
     (''busy'', JBool False)]"

definition upsilon :: Exporter where
  "upsilon = exporterAt (bamboo (ok infoRunning) (ok (JArray [agentUpsilon])) (ok queueOfTwo))"


section \<open>Facts about the string functions\<close>

lemma of_char_toLowerByte:
  "(of_char (toLowerByte c) :: nat) =
     (if 65 \<le> (of_char c :: nat) \<and> (of_char c :: nat) \<le> 90 then of_char c + 32 else of_char c)"
  by (simp add: toLowerByte_def less_eq_char_def)

lemma zip_AZ_iff:
  "(u, l) \<in> set (zip upperAZ lowerAZ) \<longleftrightarrow>
     65 \<le> (of_char u :: nat) \<and> (of_char u :: nat) \<le> 90 \<and> (of_char l :: nat) = of_char u + 32"
proof
  assume "(u, l) \<in> set (zip upperAZ lowerAZ)"
  then show "65 \<le> (of_char u :: nat) \<and> (of_char u :: nat) \<le> 90 \<and> (of_char l :: nat) = of_char u + 32"
    unfolding upperAZ_def lowerAZ_def by auto
next
  assume a: "65 \<le> (of_char u :: nat) \<and> (of_char u :: nat) \<le> 90 \<and> (of_char l :: nat) = of_char u + 32"
  define n :: nat where "n = of_char u"
  have u: "u = char_of n" and l: "l = char_of (n + 32)"
    using a by (simp_all add: n_def flip: a[THEN conjunct2, THEN conjunct2])
  have "65 \<le> n \<and> n < 91" using a by (simp add: n_def)
  then have "n \<in> set [65..<91]" by (simp only: set_upt atLeastLessThan_iff)
  then have "(char_of n, char_of (n + 32)) \<in> (\<lambda>k. (char_of k :: char, char_of (k + 32) :: char)) ` set [65..<91]"
    by (rule imageI)
  also have "(\<lambda>k. (char_of k :: char, char_of (k + 32) :: char)) ` set [65..<91]
      = set (map (\<lambda>k. (char_of k, char_of (k + 32))) [65..<91::nat])" by simp
  also have "map (\<lambda>k. (char_of k :: char, char_of (k + 32) :: char)) [65..<91::nat] = zip upperAZ lowerAZ"
    by code_simp
  finally show "(u, l) \<in> set (zip upperAZ lowerAZ)" using u l by simp
qed

lemma upperAZ_iff: "c \<in> set upperAZ \<longleftrightarrow> 65 \<le> (of_char c :: nat) \<and> (of_char c :: nat) \<le> 90"
proof -
  have "map fst (zip upperAZ lowerAZ) = upperAZ"
    by (rule map_fst_zip) (simp add: upperAZ_def lowerAZ_def)
  then have "set upperAZ = fst ` set (zip upperAZ lowerAZ)"
    by (metis set_map)
  then have "c \<in> set upperAZ \<longleftrightarrow> (\<exists>l. (c, l) \<in> set (zip upperAZ lowerAZ))"
    by force
  also have "\<dots> \<longleftrightarrow> (\<exists>l. 65 \<le> (of_char c :: nat) \<and> (of_char c :: nat) \<le> 90
                          \<and> (of_char l :: nat) = of_char c + 32)"
    by (simp only: zip_AZ_iff)
  also have "\<dots> \<longleftrightarrow> 65 \<le> (of_char c :: nat) \<and> (of_char c :: nat) \<le> 90"
  proof
    assume r: "65 \<le> (of_char c :: nat) \<and> (of_char c :: nat) \<le> 90"
    then have "(of_char (char_of (of_char c + 32 :: nat)) :: nat) = of_char c + 32"
      by simp
    with r show "\<exists>l. 65 \<le> (of_char c :: nat) \<and> (of_char c :: nat) \<le> 90
                      \<and> (of_char l :: nat) = of_char c + 32"
      by blast
  qed blast
  finally show ?thesis .
qed

lemma toLowerByte_eq_iff: "toLowerByte a = toLowerByte b \<longleftrightarrow> sameLetter a b"
proof -
  have "toLowerByte a = toLowerByte b \<longleftrightarrow> (of_char (toLowerByte a) :: nat) = of_char (toLowerByte b)"
    by simp
  also have "\<dots> \<longleftrightarrow> sameLetter a b"
    unfolding sameLetter_def zip_AZ_iff of_char_toLowerByte
    using of_char_eq_iff[of a b, where ?'a = nat]
    by (auto split: if_splits)
  finally show ?thesis .
qed

lemma lower_eq_iff: "map toLowerByte s = map toLowerByte t \<longleftrightarrow> equalsIgnoringCase s t"
proof -
  have "map toLowerByte s = map toLowerByte t
      \<longleftrightarrow> list_all2 (=) (map toLowerByte s) (map toLowerByte t)"
    by (simp only: list_all2_eq)
  also have "\<dots> \<longleftrightarrow> list_all2 (\<lambda>a b. toLowerByte a = toLowerByte b) s t"
    by (simp only: list_all2_map1 list_all2_map2)
  finally show ?thesis
    by (simp only: toLowerByte_eq_iff equalsIgnoringCase_def)
qed

lemma Replace_space:
  "n < 0 \<Longrightarrow> Replace s '' '' ''_'' n = map (\<lambda>c. if c = CHR '' '' then CHR ''_'' else c) s"
  by (induction s arbitrary: n) auto

lemma toLowerByte_space: "toLowerByte c = CHR '' '' \<longleftrightarrow> c = CHR '' ''"
proof -
  have "toLowerByte c = CHR '' '' \<longleftrightarrow> (of_char (toLowerByte c) :: nat) = of_char (CHR '' '')"
    by (simp only: of_char_eq_iff)
  also have "\<dots> \<longleftrightarrow> (of_char c :: nat) = of_char (CHR '' '')"
    unfolding of_char_toLowerByte by simp
  also have "\<dots> \<longleftrightarrow> c = CHR '' ''"
    by (simp only: of_char_eq_iff)
  finally show ?thesis .
qed

lemma lower_remote: "map toLowerByte ''remote'' = ''remote''"
  by code_simp

text \<open>ASCII bytes and ASCII strings.\<close>

lemma less_0x80: "c < CHR 0x80 \<longleftrightarrow> (of_char c :: nat) < 128"
  by (simp add: less_char_def)

lemma isASCII_iff: "isASCII s \<longleftrightarrow> (\<forall>c \<in> set s. (of_char c :: nat) < 128)"
  by (simp add: isASCII_def list_all_iff less_0x80)

lemma isASCII_Cons: "isASCII (c # s) \<longleftrightarrow> (of_char c :: nat) < 128 \<and> isASCII s"
  by (simp add: isASCII_iff)

lemma toLowerByte_ascii: "(of_char (toLowerByte c) :: nat) < 128 \<longleftrightarrow> (of_char c :: nat) < 128"
  unfolding of_char_toLowerByte by simp

lemma isASCII_lower: "isASCII (map toLowerByte s) \<longleftrightarrow> isASCII s"
  by (simp add: isASCII_iff toLowerByte_ascii)

lemma of_char_int: "(of_char c :: int) = int (of_char c)"
  by (simp add: of_nat_of_char)


lemma of_char_int_bounds: "0 \<le> (of_char c :: int)" "(of_char c :: int) < 256"
  by (simp_all add: of_char_int)

lemma DecodeRune_ascii:
  "(of_char c :: nat) < 128 \<Longrightarrow> DecodeRune (c # s) = (of_char c, 1)"
  by (simp add: DecodeRune_def of_char_int)

lemma DecodeRune_high:
  assumes "128 \<le> (of_char c :: nat)"
  shows "128 \<le> fst (DecodeRune (c # s))"
proof -
  define x :: int where "x = of_char c"
  have x: "128 \<le> x" "x < 256"
    using assms by (simp_all add: x_def of_char_int)
  consider (bad) "x < 0xC2 \<or> 0xF4 < x" | (two) "0xC2 \<le> x" "x < 0xE0"
    | (three) "0xE0 \<le> x" "x < 0xF0" | (four) "0xF0 \<le> x" "x \<le> 0xF4"
    by linarith
  then show ?thesis
  proof cases
    case bad
    then show ?thesis
      using x by (auto simp: DecodeRune_def RuneError_def simp flip: x_def)
  next
    case two
    then show ?thesis
      using x by (auto simp: DecodeRune_def Let_def RuneError_def simp flip: x_def)
  next
    case three
    then show ?thesis
      using x by (auto simp: DecodeRune_def Let_def RuneError_def simp flip: x_def)
  next
    case four
    then show ?thesis
      using x by (auto simp: DecodeRune_def Let_def RuneError_def simp flip: x_def)
  qed
qed


lemma DecodeRune_nonneg: "0 \<le> fst (DecodeRune s)"
proof (cases s)
  case Nil
  then show ?thesis by (simp add: DecodeRune_def RuneError_def)
next
  case (Cons c r)
  show ?thesis
  proof (cases "(of_char c :: nat) < 128")
    case True
    then show ?thesis
      unfolding Cons by (simp add: DecodeRune_ascii of_char_int)
  next
    case False
    then have "128 \<le> fst (DecodeRune (c # r))"
      by (intro DecodeRune_high) simp
    then show ?thesis
      unfolding Cons by simp
  qed
qed

lemma runes_nonneg: "r \<in> set (runes s) \<Longrightarrow> 0 \<le> r"
  by (induction s rule: runes.induct) (auto simp: DecodeRune_nonneg)

lemma runes_ascii: "isASCII s \<Longrightarrow> runes s = map of_char s"
  by (induction s rule: runes.induct) (simp_all add: isASCII_Cons DecodeRune_ascii)

text \<open>What \<open>EncodeRune\<close> writes.\<close>

lemma EncodeRune_low: "0 \<le> r \<Longrightarrow> r \<le> 0x7F \<Longrightarrow> EncodeRune r = [char_of r]"
  by (simp add: EncodeRune_def)

lemma of_char_char_of_int: "0 \<le> n \<Longrightarrow> n < 256 \<Longrightarrow> (of_char (char_of (n :: int)) :: nat) = nat n"
proof -
  assume n: "0 \<le> n" "n < 256"
  have "(of_char (char_of n) :: int) = n"
    using n by simp
  then show ?thesis
    by (simp add: of_char_int)
qed

lemma EncodeRune_high:
  assumes "0x80 \<le> r" "c \<in> set (EncodeRune r)"
  shows "128 \<le> (of_char c :: nat)"
proof -
  have hi: "128 \<le> (of_char (char_of (n :: int)) :: nat)" if "128 \<le> n" "n < 256" for n
    using that by (simp add: of_char_char_of_int)
  have b: "0 \<le> r mod 64" "r mod 64 < 64" "0 \<le> r div 64 mod 64" "r div 64 mod 64 < 64"
    "0 \<le> r div 4096 mod 64" "r div 4096 mod 64 < 64"
    by simp_all
  consider (two) "r \<le> 0x7FF" | (bad) "0x7FF < r" "0x10FFFF < r \<or> (0xD800 \<le> r \<and> r \<le> 0xDFFF)"
    | (three) "0x7FF < r" "r \<le> 0xFFFF" "\<not> (0xD800 \<le> r \<and> r \<le> 0xDFFF)"
    | (four) "0xFFFF < r" "r \<le> 0x10FFFF"
    by linarith
  then show ?thesis
  proof cases
    case two
    then have "0 \<le> r div 64" "r div 64 < 32"
      using assms(1) by simp_all
    with two assms b show ?thesis
      by (auto simp: EncodeRune_def intro!: hi)
  next
    case bad
    have "(of_char (CHR 0xEF) :: nat) = 239" "(of_char (CHR 0xBF) :: nat) = 191"
      "(of_char (CHR 0xBD) :: nat) = 189"
      by simp_all
    with bad assms show ?thesis
      by (auto simp: EncodeRune_def)
  next
    case three
    then have "0 \<le> r div 4096" "r div 4096 < 16"
      by simp_all
    with three assms b show ?thesis
      by (auto simp: EncodeRune_def intro!: hi)
  next
    case four
    then have "0 \<le> r div 262144" "r div 262144 < 8"
      by simp_all
    with four assms b show ?thesis
      by (auto simp: EncodeRune_def intro!: hi)
  qed
qed

text \<open>What \<open>toLowerRune\<close> gives.\<close>

lemma toLowerRune_nonneg: "0 \<le> r \<Longrightarrow> 0 \<le> toLowerRune T r"
  by (simp add: toLowerRune_def)

lemma toLowerRune_high:
  "0x80 \<le> r \<Longrightarrow> toLowerRune T r = 0x69 \<or> toLowerRune T r = 0x6B \<or> 0x80 \<le> toLowerRune T r"
  by (simp add: toLowerRune_def)

lemma toLowerRune_byte:
  "(of_char c :: nat) < 128 \<Longrightarrow> EncodeRune (toLowerRune T (of_char c)) = [toLowerByte c]"
proof -
  assume a: "(of_char c :: nat) < 128"
  define n :: nat where "n = of_char c"
  have c: "c = char_of n"
    by (simp add: n_def)
  have r: "toLowerRune T (of_char c) = int (of_char (toLowerByte c))"
    using a unfolding of_char_toLowerByte by (simp add: toLowerRune_def of_char_int)
  have "0 \<le> int (of_char (toLowerByte c))" "int (of_char (toLowerByte c)) \<le> 0x7F"
    using a toLowerByte_ascii [of c] by simp_all
  then have "EncodeRune (int (of_char (toLowerByte c))) = [char_of (int (of_char (toLowerByte c)))]"
    by (rule EncodeRune_low)
  also have "char_of (int (of_char (toLowerByte c))) = toLowerByte c"
    by (simp add: of_nat_of_char)
  finally show ?thesis
    by (simp only: r)
qed

lemma ToLower_as_Map: "ToLower T s = MapRunes (toLowerRune T) s"
proof (cases "isASCII s")
  case True
  have "0 \<le> toLowerRune T (of_char c)" for c
    by (rule toLowerRune_nonneg) (simp add: of_char_int)
  then have "MapRunes (toLowerRune T) s = concat (map (\<lambda>c. EncodeRune (toLowerRune T (of_char c))) s)"
    by (simp add: MapRunes_def runes_ascii [OF True] comp_def not_less [symmetric])
  also have "\<dots> = concat (map (\<lambda>c. [toLowerByte c]) s)"
    using True by (intro arg_cong [where f = concat] map_cong refl toLowerRune_byte)
      (simp add: isASCII_iff)
  also have "\<dots> = map toLowerByte s"
    by (induction s) simp_all
  finally show ?thesis
    using True by (simp add: ToLower_def)
next
  case False
  then show ?thesis
    by (simp add: ToLower_def)
qed

lemma EncodeRune_cases:
  assumes "0 \<le> x" "c \<in> set (EncodeRune x)"
  shows "(x \<le> 0x7F \<and> c = char_of x) \<or> 128 \<le> (of_char c :: nat)"
proof (cases "x \<le> 0x7F")
  case True
  with assms show ?thesis
    by (simp add: EncodeRune_low)
next
  case False
  then have "0x80 \<le> x" by simp
  then show ?thesis
    using assms(2) by (auto dest: EncodeRune_high)
qed

lemma EncodeRune_not_Nil: "EncodeRune x \<noteq> []"
  by (simp add: EncodeRune_def)

lemma toLowerRune_not_upper: "0 \<le> r \<Longrightarrow> \<not> (0x41 \<le> toLowerRune T r \<and> toLowerRune T r \<le> 0x5A)"
  by (simp add: toLowerRune_def)

lemma toLowerRune_space: "toLowerRune T r = 0x20 \<longleftrightarrow> r = 0x20"
  by (simp add: toLowerRune_def)

lemma char_of_low: "0 \<le> x \<Longrightarrow> x \<le> 0x7F \<Longrightarrow> (of_char (char_of (x :: int)) :: nat) = nat x"
  by (rule of_char_char_of_int) simp_all

lemma lowered_not_upper:
  assumes "0 \<le> r" "c \<in> set (EncodeRune (toLowerRune T r))"
  shows "c \<notin> set upperAZ"
proof -
  let ?x = "toLowerRune T r"
  have x: "0 \<le> ?x"
    using assms(1) by (rule toLowerRune_nonneg)
  from EncodeRune_cases [OF x assms(2)] show ?thesis
  proof
    assume a: "?x \<le> 0x7F \<and> c = char_of ?x"
    then have "(of_char c :: nat) = nat ?x"
      using x by (simp add: char_of_low)
    moreover have "\<not> (0x41 \<le> ?x \<and> ?x \<le> 0x5A)"
      using assms(1) by (rule toLowerRune_not_upper)
    ultimately show ?thesis
      unfolding upperAZ_iff using x by auto
  next
    assume "128 \<le> (of_char c :: nat)"
    then show ?thesis
      unfolding upperAZ_iff by simp
  qed
qed

lemma MapRunes_Cons:
  "MapRunes f (c # s) =
     (if f (fst (DecodeRune (c # s))) < 0 then [] else EncodeRune (f (fst (DecodeRune (c # s)))))
     @ MapRunes f (drop (snd (DecodeRune (c # s)) - 1) s)"
  by (simp add: MapRunes_def)

lemma in_MapRunes:
  "c \<in> set (MapRunes f s) \<Longrightarrow> \<exists>r \<in> set (runes s). 0 \<le> f r \<and> c \<in> set (EncodeRune (f r))"
  by (fastforce simp: MapRunes_def not_less split: if_splits)

lemma ToLower_no_upper: "set (ToLower T s) \<inter> set upperAZ = {}"
proof -
  have "c \<notin> set upperAZ" if "c \<in> set (MapRunes (toLowerRune T) s)" for c
  proof -
    from in_MapRunes [OF that] obtain r where r: "r \<in> set (runes s)"
        "c \<in> set (EncodeRune (toLowerRune T r))"
      by blast
    from runes_nonneg [OF r(1)] r(2) show ?thesis
      by (rule lowered_not_upper)
  qed
  then show ?thesis
    by (auto simp: ToLower_as_Map)
qed

text \<open>A string that is not ASCII is not lowered to \<open>remote\<close>.\<close>

lemma not_ascii_lowered:
  "\<not> isASCII s \<Longrightarrow>
   \<exists>c \<in> set (MapRunes (toLowerRune T) s). 128 \<le> (of_char c :: nat) \<or> c = CHR ''i'' \<or> c = CHR ''k''"
proof (induction s rule: runes.induct)
  case 1
  then show ?case by (simp add: isASCII_def)
next
  case (2 c s)
  show ?case
  proof (cases "(of_char c :: nat) < 128")
    case True
    with "2.prems" have "\<not> isASCII s"
      by (simp add: isASCII_Cons)
    moreover have "drop (snd (DecodeRune (c # s)) - 1) s = s"
      using True by (simp add: DecodeRune_ascii)
    ultimately have "\<exists>c \<in> set (MapRunes (toLowerRune T) s).
        128 \<le> (of_char c :: nat) \<or> c = CHR ''i'' \<or> c = CHR ''k''"
      using "2.IH" by simp
    then show ?thesis
      using True by (auto simp: MapRunes_Cons DecodeRune_ascii)
  next
    case False
    let ?r = "fst (DecodeRune (c # s))"
    let ?x = "toLowerRune T ?r"
    have r: "0x80 \<le> ?r"
      using False DecodeRune_high [of c s] by simp
    then have x: "0 \<le> ?x"
      by (intro toLowerRune_nonneg) simp
    have "\<exists>c \<in> set (EncodeRune ?x). 128 \<le> (of_char c :: nat) \<or> c = CHR ''i'' \<or> c = CHR ''k''"
    proof -
      from toLowerRune_high [OF r, of T] consider "?x = 0x69" | "?x = 0x6B" | "0x80 \<le> ?x"
        by blast
      then show ?thesis
      proof cases
        case 1
        have "EncodeRune 0x69 = ''i''" by code_simp
        with 1 show ?thesis by simp
      next
        case 2
        have "EncodeRune 0x6B = ''k''" by code_simp
        with 2 show ?thesis by simp
      next
        case 3
        obtain b where b: "b \<in> set (EncodeRune ?x)"
          using EncodeRune_not_Nil [of ?x] by (cases "EncodeRune ?x") auto
        with 3 have "128 \<le> (of_char b :: nat)"
          by (rule EncodeRune_high)
        with b show ?thesis by blast
      qed
    qed
    then show ?thesis
      using x by (auto simp: MapRunes_Cons)
  qed
qed

lemma ToLower_remote: "ToLower T s = ''remote'' \<longleftrightarrow> equalsIgnoringCase s ''remote''"
proof (cases "isASCII s")
  case True
  then have "ToLower T s = map toLowerByte s"
    by (simp add: ToLower_def)
  then show ?thesis
    using lower_eq_iff [of s "''remote''"] by (simp only: lower_remote)
next
  case False
  from not_ascii_lowered [OF False, of T]
  have "ToLower T s \<noteq> ''remote''"
    by (auto simp: ToLower_as_Map)
  moreover have "\<not> equalsIgnoringCase s ''remote''"
  proof
    assume "equalsIgnoringCase s ''remote''"
    then have "map toLowerByte s = ''remote''"
      using lower_eq_iff [of s "''remote''"] by (simp only: lower_remote)
    moreover have "isASCII ''remote''"
      by code_simp
    ultimately have "isASCII (map toLowerByte s)"
      by simp
    with False show False
      by (simp only: isASCII_lower)
  qed
  ultimately show ?thesis
    by simp
qed

section \<open>What one scrape sends\<close>

lemma float64_small: "\<bar>n\<bar> < 9007199254740992 \<Longrightarrow> float64 n = n"
proof -
  assume "\<bar>n\<bar> < 9007199254740992"
  then have "excess53 \<bar>n\<bar> = 0"
    by (simp add: excess53.simps)
  then show ?thesis
    by (simp add: float64_def Let_def abs_if sgn_if)
qed

lemma float64_rounds: "float64 9007199254740993 = 9007199254740992"
  by code_simp

lemma long_s_selects_size:
  "GetQueue queueLongS = (\<lparr>QueuedBuilds = \<lparr>Size = 4, StartIndex = 0, MaxResult = 0\<rparr>\<rparr>, None)"
  by code_simp

lemma dotted_I_is_lowered: "ToLower T (''RUNN'' @ [CHR 0xC4, CHR 0xB0] @ ''NG'') = ''running''"
  by code_simp

lemma foldl_agentStep:
  "foldl (agentStep T) (out, b) xs = (out @ map (agentRow T) xs, b + int (length (filter IsWorking xs)))"
  by (induction xs arbitrary: out b) (simp_all add: agentStep_def)

lemma Do_cong: "sameUpstream e e' \<Longrightarrow> Do e endpoint = Do e' endpoint"
  by (auto simp: sameUpstream_def Do_def Let_def)

lemma Get_cong:
  assumes "sameUpstream e e'"
  shows "GetVersion e = GetVersion e'" "GetAgents e = GetAgents e'" "GetQueue e = GetQueue e'"
  using Do_cong[OF assms] by (simp_all add: GetVersion_def GetAgents_def GetQueue_def)

lemma Do_gauges [simp]:
  "Do (e\<lparr>up := g\<rparr>) = Do e"
  "Do (e\<lparr>isRunning := g\<rparr>) = Do e"
  "Do (e\<lparr>agentCountTotal := g\<rparr>) = Do e"
  "Do (e\<lparr>agentCountBusy := g\<rparr>) = Do e"
  "Do (e\<lparr>buildQueue := g\<rparr>) = Do e"
  by (rule ext, simp add: Do_def Let_def)+

lemma Get_gauges [simp]:
  "GetVersion (e\<lparr>up := g\<rparr>) = GetVersion e"
  "GetVersion (e\<lparr>isRunning := g\<rparr>) = GetVersion e"
  "GetVersion (e\<lparr>agentCountTotal := g\<rparr>) = GetVersion e"
  "GetVersion (e\<lparr>agentCountBusy := g\<rparr>) = GetVersion e"
  "GetVersion (e\<lparr>buildQueue := g\<rparr>) = GetVersion e"
  "GetAgents (e\<lparr>up := g\<rparr>) = GetAgents e"
  "GetAgents (e\<lparr>isRunning := g\<rparr>) = GetAgents e"
  "GetAgents (e\<lparr>agentCountTotal := g\<rparr>) = GetAgents e"
  "GetAgents (e\<lparr>agentCountBusy := g\<rparr>) = GetAgents e"
  "GetAgents (e\<lparr>buildQueue := g\<rparr>) = GetAgents e"
  "GetQueue (e\<lparr>up := g\<rparr>) = GetQueue e"
  "GetQueue (e\<lparr>isRunning := g\<rparr>) = GetQueue e"
  "GetQueue (e\<lparr>agentCountTotal := g\<rparr>) = GetQueue e"
  "GetQueue (e\<lparr>agentCountBusy := g\<rparr>) = GetQueue e"
  "GetQueue (e\<lparr>buildQueue := g\<rparr>) = GetQueue e"
  by (simp_all add: GetVersion_def GetAgents_def GetQueue_def)

lemma collectRunning_eq:
  "collectRunning T s =
     \<lparr>exporter = (exporter s)\<lparr>isRunning :=
          \<lparr>fqName = fqName (isRunning (exporter s)),
           val = (if ToLower T (State (fst (GetVersion (exporter s)))) = ''running'' then 1 else 0)\<rparr>\<rparr>,
      err = snd (GetVersion (exporter s)),
      ch = ch s @ [\<lparr>metricName = fqName (isRunning (exporter s)), labels = [],
                    metricValue = (if ToLower T (State (fst (GetVersion (exporter s)))) = ''running'' then 1 else 0)\<rparr>],
      logged = logError (snd (GetVersion (exporter s))) (logged s)\<rparr>"
  by (simp add: collectRunning_def Let_def split_def Set_def sendGauge_def)

lemma collectAgents_eq:
  "collectAgents T s =
     \<lparr>exporter = (exporter s)\<lparr>
          agentCountTotal := \<lparr>fqName = fqName (agentCountTotal (exporter s)),
                              val = int (length (fst (GetAgents (exporter s))))\<rparr>,
          agentCountBusy := \<lparr>fqName = fqName (agentCountBusy (exporter s)),
                             val = int (length (filter IsWorking (fst (GetAgents (exporter s)))))\<rparr>\<rparr>,
      err = snd (GetAgents (exporter s)),
      ch = ch s
           @ [\<lparr>metricName = fqName (agentCountTotal (exporter s)), labels = [],
                metricValue = int (length (fst (GetAgents (exporter s))))\<rparr>]
           @ map (agentRow T) (fst (GetAgents (exporter s)))
           @ [\<lparr>metricName = fqName (agentCountBusy (exporter s)), labels = [],
                metricValue = int (length (filter IsWorking (fst (GetAgents (exporter s)))))\<rparr>],
      logged = logError (snd (GetAgents (exporter s))) (logged s)\<rparr>"
  by (simp add: collectAgents_def Let_def split_def Set_def sendGauge_def foldl_agentStep)

lemma collectQueue_eq:
  "collectQueue s =
     \<lparr>exporter = (exporter s)\<lparr>buildQueue :=
          \<lparr>fqName = fqName (buildQueue (exporter s)),
           val = float64 (Size (QueuedBuilds (fst (GetQueue (exporter s)))))\<rparr>\<rparr>,
      err = snd (GetQueue (exporter s)),
      ch = ch s @ [\<lparr>metricName = fqName (buildQueue (exporter s)), labels = [],
                    metricValue = float64 (Size (QueuedBuilds (fst (GetQueue (exporter s)))))\<rparr>],
      logged = logError (snd (GetQueue (exporter s))) (logged s)\<rparr>"
  by (simp add: collectQueue_def Let_def split_def Set_def sendGauge_def)

lemma collectUp_eq:
  "collectUp s =
     s\<lparr>exporter := (if err s \<noteq> None then (exporter s)\<lparr>up := \<lparr>fqName = fqName (up (exporter s)), val = 0\<rparr>\<rparr> else exporter s),
       ch := ch s @ [\<lparr>metricName = fqName (up (exporter s)), labels = [],
                    metricValue = (if err s \<noteq> None then 0 else val (up (exporter s)))\<rparr>]\<rparr>"
  by (simp add: collectUp_def Let_def Set_def sendGauge_def)

lemma Collect_ch:
  "ch (Collect_Exporter T e) =
     [\<lparr>metricName = fqName (isRunning e), labels = [],
       metricValue = (if ToLower T (State (fst (GetVersion e))) = ''running'' then 1 else 0)\<rparr>,
      \<lparr>metricName = fqName (agentCountTotal e), labels = [],
       metricValue = int (length (fst (GetAgents e)))\<rparr>]
     @ map (agentRow T) (fst (GetAgents e))
     @ [\<lparr>metricName = fqName (agentCountBusy e), labels = [],
         metricValue = int (length (filter IsWorking (fst (GetAgents e))))\<rparr>,
        \<lparr>metricName = fqName (buildQueue e), labels = [],
         metricValue = float64 (Size (QueuedBuilds (fst (GetQueue e))))\<rparr>,
        \<lparr>metricName = fqName (up e), labels = [],
         metricValue = (if snd (GetQueue e) = None then 1 else 0)\<rparr>]"
  by (simp add: Collect_Exporter_def Let_def collectUp_eq collectQueue_eq collectAgents_eq collectRunning_eq Set_def)

lemma Collect_exporter:
  "exporter (Collect_Exporter T e) =
     e\<lparr>up := \<lparr>fqName = fqName (up e), val = (if snd (GetQueue e) = None then 1 else 0)\<rparr>,
       isRunning := \<lparr>fqName = fqName (isRunning e),
          val = (if ToLower T (State (fst (GetVersion e))) = ''running'' then 1 else 0)\<rparr>,
       agentCountTotal := \<lparr>fqName = fqName (agentCountTotal e),
          val = int (length (fst (GetAgents e)))\<rparr>,
       agentCountBusy := \<lparr>fqName = fqName (agentCountBusy e),
          val = int (length (filter IsWorking (fst (GetAgents e))))\<rparr>,
       buildQueue := \<lparr>fqName = fqName (buildQueue e),
          val = float64 (Size (QueuedBuilds (fst (GetQueue e))))\<rparr>\<rparr>"
  by (simp add: Collect_Exporter_def Let_def collectUp_eq collectQueue_eq collectAgents_eq collectRunning_eq Set_def)

lemma Collect_logged:
  "logged (Collect_Exporter T e) =
     logError (snd (GetQueue e)) (logError (snd (GetAgents e)) (logError (snd (GetVersion e)) []))"
  by (simp add: Collect_Exporter_def Let_def collectUp_eq collectQueue_eq collectAgents_eq collectRunning_eq)

lemma agentRow_name: "metricName (agentRow T a) = ''bamboo_agent_busy''"
  by (simp add: agentRow_def MustNewConstMetric_def buildAgent_def BuildFQName_def nameSpace_def)

lemma filter_agentRow_other:
  "n \<noteq> ''bamboo_agent_busy'' \<Longrightarrow> filter (\<lambda>m. metricName m = n) (map (agentRow T) xs) = []"
  by (induction xs) (auto simp: agentRow_name)

lemma filter_agentRow_same:
  "filter (\<lambda>m. metricName m = ''bamboo_agent_busy'') (map (agentRow T) xs) = map (agentRow T) xs"
  by (induction xs) (auto simp: agentRow_name)

lemma standardNamesD:
  assumes "standardNames e"
  shows "fqName (up e) = ''bamboo_up''" "fqName (isRunning e) = ''bamboo_running''"
    "fqName (agentCountTotal e) = ''bamboo_agent_count_total''"
    "fqName (agentCountBusy e) = ''bamboo_agent_count_busy''"
    "fqName (buildQueue e) = ''bamboo_queue_count''"
  using assms by (simp_all add: standardNames_def gaugeNames_def)

lemma standardNames_NewExporter: "standardNames (NewExporter net uri user password)"
  by (simp add: standardNames_def gaugeNames_def NewExporter_def NewGauge_def BuildFQName_def
      nameSpace_def)

lemma standardNames_Collect: "standardNames (exporter (Collect_Exporter T e)) = standardNames e"
  by (simp add: standardNames_def gaugeNames_def Collect_exporter)

lemma sameUpstream_Collect: "sameUpstream (exporter (Collect_Exporter T e)) e"
  by (simp add: sameUpstream_def Collect_exporter)

lemma samples_up:
  "standardNames e \<Longrightarrow>
   gaugeSamples ''bamboo_up'' (ch (Collect_Exporter T e)) = [if snd (GetQueue e) = None then 1 else 0]"
  by (simp add: gaugeSamples_def Collect_ch standardNamesD filter_agentRow_other)

lemma samples_running:
  "standardNames e \<Longrightarrow>
   gaugeSamples ''bamboo_running'' (ch (Collect_Exporter T e)) =
     [if ToLower T (State (fst (GetVersion e))) = ''running'' then 1 else 0]"
  by (simp add: gaugeSamples_def Collect_ch standardNamesD filter_agentRow_other)

lemma samples_total:
  "standardNames e \<Longrightarrow>
   gaugeSamples ''bamboo_agent_count_total'' (ch (Collect_Exporter T e)) =
     [int (length (fst (GetAgents e)))]"
  by (simp add: gaugeSamples_def Collect_ch standardNamesD filter_agentRow_other)

lemma samples_busy:
  "standardNames e \<Longrightarrow>
   gaugeSamples ''bamboo_agent_count_busy'' (ch (Collect_Exporter T e)) =
     [int (length (filter IsWorking (fst (GetAgents e))))]"
  by (simp add: gaugeSamples_def Collect_ch standardNamesD filter_agentRow_other)

lemma samples_queue:
  "standardNames e \<Longrightarrow>
   gaugeSamples ''bamboo_queue_count'' (ch (Collect_Exporter T e)) =
     [float64 (Size (QueuedBuilds (fst (GetQueue e))))]"
  by (simp add: gaugeSamples_def Collect_ch standardNamesD filter_agentRow_other)

lemma rows_sent:
  "standardNames e \<Longrightarrow> agentRows (ch (Collect_Exporter T e)) = map (agentRow T) (fst (GetAgents e))"
  by (simp add: agentRows_def Collect_ch standardNamesD filter_agentRow_same)

lemma Collect_names:
  "standardNames e \<Longrightarrow>
   map metricName (ch (Collect_Exporter T e)) =
     [''bamboo_running'', ''bamboo_agent_count_total'']
     @ replicate (length (fst (GetAgents e))) ''bamboo_agent_busy''
     @ [''bamboo_agent_count_busy'', ''bamboo_queue_count'', ''bamboo_up'']"
  by (simp add: Collect_ch standardNamesD agentRow_name map_replicate_const [symmetric] comp_def)


text \<open>
  An accessor whose request fails, or whose answer is not JSON, returns the zero value
  with the error.
\<close>

lemma failed_Do:
  "Do e ''/rest/api/latest/info'' = Inl x \<Longrightarrow> GetVersion e = (zeroVersion, Some x)"
  "Do e ''/rest/api/latest/agent'' = Inl x \<Longrightarrow> GetAgents e = ([], Some x)"
  "Do e ''/rest/api/latest/queue'' = Inl x \<Longrightarrow> GetQueue e = (zeroQueue, Some x)"
  by (simp_all add: GetVersion_def GetAgents_def GetQueue_def)

lemma not_JSON:
  "Do e ''/rest/api/latest/info'' = Inr NotJSON \<Longrightarrow> GetVersion e = (zeroVersion, Some SyntaxError)"
  "Do e ''/rest/api/latest/agent'' = Inr NotJSON \<Longrightarrow> GetAgents e = ([], Some SyntaxError)"
  "Do e ''/rest/api/latest/queue'' = Inr NotJSON \<Longrightarrow> GetQueue e = (zeroQueue, Some SyntaxError)"
  by (simp_all add: GetVersion_def GetAgents_def GetQueue_def UnmarshalVersion_def
      UnmarshalAgents_def UnmarshalQueue_def)


section \<open>The overall gauge\<close>

text \<open>
  Claim C1: \<open>bamboo_up\<close> is 1 if and only if all three upstream calls succeeded, a failure
  of any one of them forcing it to 0. \<open>Collect\<close> tests \<open>err\<close> once, after \<open>GetQueue\<close> has
  overwritten what \<open>GetVersion\<close> and \<open>GetAgents\<close> stored in it (lemma \<open>samples_up\<close>).
  With the info endpoint answering 500 and the other two endpoints answering well,
  \<open>GetVersion\<close> fails and the scrape still sends \<open>bamboo_up\<close> = 1.
\<close>

theorem up_with_info_down:
  "snd (GetVersion infoDown) =
     Some (ErrorString
       ''cannot access /rest/api/latest/info endpoint do you have correct permissions'')
   \<and> snd (GetAgents infoDown) = None
   \<and> snd (GetQueue infoDown) = None
   \<and> gaugeSamples ''bamboo_up'' (ch (Collect_Exporter T infoDown)) = [1]"
  by code_simp


section \<open>Busy agents\<close>

text \<open>
  Claim C2: the sample of each agent row is 1 when the agent's busy flag is true and 0
  when it is false, row by row in the order of the list that \<open>GetAgents\<close> returned, and
  \<open>bamboo_agent_count_busy\<close> is sent once, with the number of agents of that list whose
  busy flag is true.
\<close>

theorem busy_samples:
  assumes "standardNames e"
  shows "map metricValue (agentRows (ch (Collect_Exporter T e))) =
           map (\<lambda>a. if IsWorking a then 1 else 0) (fst (GetAgents e))
         \<and> gaugeSamples ''bamboo_agent_count_busy'' (ch (Collect_Exporter T e)) =
             [int (length (filter IsWorking (fst (GetAgents e))))]"
proof -
  have "metricValue (agentRow T a) = (if IsWorking a then 1 else 0)" for a
    by (simp add: agentRow_def MustNewConstMetric_def)
  then show ?thesis
    using assms by (simp add: rows_sent samples_busy)
qed

theorem busy_samples_witness:
  "standardNames scenario
   \<and> snd (GetAgents scenario) = None
   \<and> map IsWorking (fst (GetAgents scenario)) = [True, False]
   \<and> map metricValue (agentRows (ch (Collect_Exporter latin1 scenario))) = [1, 0]
   \<and> gaugeSamples ''bamboo_agent_count_busy'' (ch (Collect_Exporter latin1 scenario)) = [1]"
proof -
  have h: "standardNames scenario"
    by code_simp
  have g: "GetAgents scenario =
      ([\<lparr>AgentId = 1, HostName = ''A'', IsRemote = ''remote'', IsActive = True,
          IsEnabled = True, IsWorking = True\<rparr>,
        \<lparr>AgentId = 2, HostName = ''B'', IsRemote = ''local'', IsActive = False,
          IsEnabled = True, IsWorking = False\<rparr>], None)"
    by code_simp
  show ?thesis
    using h busy_samples [OF h] by (simp add: g)
qed


section \<open>The agent count after a failed call\<close>

text \<open>
  Claim C3: \<open>bamboo_agent_count_total\<close> is the number of agents returned, and when
  \<open>GetAgents\<close> fails the scrape sends a total of 0, a busy count of 0 and no agent row.
  The total is always the length of the returned list (lemma \<open>samples_total\<close>), but
  \<open>Collect\<close> uses that list whether or not an error came with it. When one member of an
  agent has the wrong JSON type, \<open>json.Unmarshal\<close> returns an error and the agents decoded
  so far: the call has failed, the total sent is 1 and a row is sent.
\<close>

theorem rows_after_failed_agents:
  "snd (GetAgents agentsMistyped) = Some (UnmarshalTypeError ''string'')
   \<and> gaugeSamples ''bamboo_agent_count_total'' (ch (Collect_Exporter T agentsMistyped)) = [1]
   \<and> map metricValue (agentRows (ch (Collect_Exporter T agentsMistyped))) = [0]"
  by code_simp


section \<open>The running gauge after a failed call\<close>

text \<open>
  Claim C4: \<open>bamboo_running\<close> is 1 if \<open>GetVersion\<close> succeeded and the state is
  \<open>running\<close> up to case, and 0 otherwise, in particular when the call failed. \<open>Collect\<close>
  reads \<open>version.State\<close> whether or not an error came with it. When the build number has
  the wrong JSON type and the state is \<open>RUNNING\<close>, the call has failed and the gauge
  sent is 1.
\<close>

theorem running_after_failed_info:
  "snd (GetVersion infoMistyped) = Some (UnmarshalTypeError ''number'')
   \<and> gaugeSamples ''bamboo_running'' (ch (Collect_Exporter T infoMistyped)) = [1]"
  by code_simp



section \<open>The size of the queue\<close>

lemma typeError_iff: "typeError saved \<longleftrightarrow> (\<exists>v. saved = Some (UnmarshalTypeError v))"
  by (cases saved rule: typeError.cases) simp_all

lemma saveError_typeError:
  "saved = None \<or> typeError saved \<Longrightarrow> typeError (saveError (UnmarshalTypeError v) saved)"
  by (cases saved) (auto simp: saveError_def)

lemma saveError_sticky: "typeError saved \<Longrightarrow> saveError x saved = saved"
  by (cases saved) (auto simp: saveError_def)

lemma storeInt64_sticky: "typeError saved \<Longrightarrow> snd (storeInt64 j (v, saved)) = saved"
  by (cases j) (auto simp: saveError_sticky split: option.splits)

lemma storeInt64_clean:
  "saved = None \<or> typeError saved \<Longrightarrow>
   snd (storeInt64 j (v, saved)) = None \<or> typeError (snd (storeInt64 j (v, saved)))"
  by (cases j) (auto simp: saveError_typeError split: option.splits)

lemma storeInt64_nonNumeric:
  "nonNumeric j \<Longrightarrow> saved = None \<or> typeError saved \<Longrightarrow> typeError (snd (storeInt64 j (v, saved)))"
  by (cases j) (auto simp: saveError_typeError)

lemma storeInt64_fits:
  "fitsInt64 j \<Longrightarrow> snd (storeInt64 j (v, saved)) = saved"
  by (cases j) (auto split: option.splits)

lemma storeInt64_null: "storeInt64 JNull (v, saved) = (v, saved)"
  by simp

lemma queuedBuildsMember_sticky:
  "typeError (snd acc) \<Longrightarrow> snd (queuedBuildsMember acc m) = snd acc"
  by (cases acc; cases m) (simp add: queuedBuildsMember_def split_def Let_def storeInt64_sticky)

lemma queuedBuildsMember_clean:
  "snd acc = None \<or> typeError (snd acc) \<Longrightarrow>
   snd (queuedBuildsMember acc m) = None \<or> typeError (snd (queuedBuildsMember acc m))"
  by (cases acc; cases m) (simp add: queuedBuildsMember_def split_def Let_def storeInt64_clean)

lemma queuedBuildsMember_size:
  "equalFold ''size'' k \<Longrightarrow> nonNumeric j \<Longrightarrow> snd acc = None \<or> typeError (snd acc) \<Longrightarrow>
   typeError (snd (queuedBuildsMember acc (k, j)))"
  by (cases acc) (simp add: queuedBuildsMember_def split_def Let_def storeInt64_nonNumeric)

lemma queuedBuildsMember_quiet:
  "quietMember m \<Longrightarrow>
   snd (queuedBuildsMember acc m) = snd acc \<and> Size (fst (queuedBuildsMember acc m)) = Size (fst acc)"
  by (cases acc; cases m)
     (auto simp: queuedBuildsMember_def quietMember_def split_def Let_def storeInt64_fits)

lemma foldl_queuedBuildsMember_sticky:
  "typeError (snd acc) \<Longrightarrow> snd (foldl queuedBuildsMember acc qs) = snd acc"
  by (induction qs arbitrary: acc) (simp_all add: queuedBuildsMember_sticky)

lemma foldl_queuedBuildsMember_clean:
  "snd acc = None \<or> typeError (snd acc) \<Longrightarrow>
   snd (foldl queuedBuildsMember acc qs) = None \<or> typeError (snd (foldl queuedBuildsMember acc qs))"
  by (induction qs arbitrary: acc) (simp_all add: queuedBuildsMember_clean)

lemma foldl_queuedBuildsMember_size:
  assumes "(k, j) \<in> set qs" "equalFold ''size'' k" "nonNumeric j"
    and "snd acc = None \<or> typeError (snd acc)"
  shows "typeError (snd (foldl queuedBuildsMember acc qs))"
  using assms(1,4)
proof (induction qs arbitrary: acc)
  case Nil
  then show ?case by simp
next
  case (Cons m qs)
  show ?case
  proof (cases "m = (k, j)")
    case True
    have "typeError (snd (queuedBuildsMember acc m))"
      unfolding True using assms(2,3) Cons.prems(2) by (rule queuedBuildsMember_size)
    then show ?thesis
      by (simp add: foldl_queuedBuildsMember_sticky)
  next
    case False
    with Cons.prems(1) have "(k, j) \<in> set qs" by simp
    moreover have "snd (queuedBuildsMember acc m) = None \<or> typeError (snd (queuedBuildsMember acc m))"
      using Cons.prems(2) by (rule queuedBuildsMember_clean)
    ultimately show ?thesis
      using Cons.IH by simp
  qed
qed

lemma foldl_queuedBuildsMember_quiet:
  "list_all quietMember qs \<Longrightarrow>
   snd (foldl queuedBuildsMember acc qs) = snd acc
   \<and> Size (fst (foldl queuedBuildsMember acc qs)) = Size (fst acc)"
  by (induction qs arbitrary: acc) (simp_all add: queuedBuildsMember_quiet)

lemma storeQueuedBuilds_sticky:
  "typeError saved \<Longrightarrow> snd (storeQueuedBuilds j (q, saved)) = saved"
  by (cases j) (simp_all add: foldl_queuedBuildsMember_sticky saveError_sticky)

lemma storeQueuedBuilds_clean:
  "saved = None \<or> typeError saved \<Longrightarrow>
   snd (storeQueuedBuilds j (q, saved)) = None \<or> typeError (snd (storeQueuedBuilds j (q, saved)))"
  using foldl_queuedBuildsMember_clean [of "(q, saved)"]
  by (cases j) (simp_all add: saveError_typeError)

lemma storeQueuedBuilds_quiet:
  "sizeLeftOut j \<Longrightarrow>
   snd (storeQueuedBuilds j (q, saved)) = saved
   \<and> Size (fst (storeQueuedBuilds j (q, saved))) = Size q"
  using foldl_queuedBuildsMember_quiet [of _ "(q, saved)"]
  by (cases j) simp_all

lemma queueMember_sticky:
  "typeError (snd acc) \<Longrightarrow> snd (queueMember acc m) = snd acc"
  by (cases acc; cases m) (simp add: queueMember_def split_def Let_def storeQueuedBuilds_sticky)

lemma queueMember_clean:
  "snd acc = None \<or> typeError (snd acc) \<Longrightarrow>
   snd (queueMember acc m) = None \<or> typeError (snd (queueMember acc m))"
  by (cases acc; cases m) (simp add: queueMember_def split_def Let_def storeQueuedBuilds_clean)

lemma queueMember_size:
  assumes "equalFold ''queuedBuilds'' k" "(k', j) \<in> set qs" "equalFold ''size'' k'" "nonNumeric j"
    and "snd acc = None \<or> typeError (snd acc)"
  shows "typeError (snd (queueMember acc (k, JObject qs)))"
  using assms(1) foldl_queuedBuildsMember_size [OF assms(2,3,4), of "(QueuedBuilds (fst acc), snd acc)"] assms(5)
  by (cases acc) (simp add: queueMember_def split_def Let_def)

lemma queueMember_quiet:
  "sizeLeftOutIn m \<Longrightarrow>
   snd (queueMember acc m) = snd acc
   \<and> Size (QueuedBuilds (fst (queueMember acc m))) = Size (QueuedBuilds (fst acc))"
  by (cases acc; cases m)
     (auto simp: queueMember_def sizeLeftOutIn_def split_def Let_def storeQueuedBuilds_quiet)

lemma foldl_queueMember_sticky:
  "typeError (snd acc) \<Longrightarrow> snd (foldl queueMember acc ms) = snd acc"
  by (induction ms arbitrary: acc) (simp_all add: queueMember_sticky)

lemma foldl_queueMember_size:
  assumes "(k, JObject qs) \<in> set ms" "equalFold ''queuedBuilds'' k"
    and "(k', j) \<in> set qs" "equalFold ''size'' k'" "nonNumeric j"
    and "snd acc = None \<or> typeError (snd acc)"
  shows "typeError (snd (foldl queueMember acc ms))"
  using assms(1,6)
proof (induction ms arbitrary: acc)
  case Nil
  then show ?case by simp
next
  case (Cons m ms)
  show ?case
  proof (cases "m = (k, JObject qs)")
    case True
    have "typeError (snd (queueMember acc m))"
      unfolding True using assms(2,3,4,5) Cons.prems(2) by (rule queueMember_size)
    then show ?thesis
      by (simp add: foldl_queueMember_sticky)
  next
    case False
    with Cons.prems(1) have "(k, JObject qs) \<in> set ms" by simp
    moreover have "snd (queueMember acc m) = None \<or> typeError (snd (queueMember acc m))"
      using Cons.prems(2) by (rule queueMember_clean)
    ultimately show ?thesis
      using Cons.IH by simp
  qed
qed

lemma foldl_queueMember_quiet:
  "list_all sizeLeftOutIn ms \<Longrightarrow>
   snd (foldl queueMember acc ms) = snd acc
   \<and> Size (QueuedBuilds (fst (foldl queueMember acc ms))) = Size (QueuedBuilds (fst acc))"
  by (induction ms arbitrary: acc) (simp_all add: queueMember_quiet)

lemma GetQueue_object:
  "Do e ''/rest/api/latest/queue'' = Inr (Doc (JObject ms)) \<Longrightarrow>
   GetQueue e = foldl queueMember (zeroQueue, None) ms"
  by (simp add: GetQueue_def UnmarshalQueue_def)

text \<open>
  Claim C5: for a JSON object response in which the size of \<open>queuedBuilds\<close> is absent
  or not a number, \<open>GetQueue\<close> fails with a decode error and does not succeed with a
  default. Counterexample: the answer
  \<^verbatim>\<open>{"queuedBuilds":{"start-index":0,"max-result":25}}\<close> has no size, and \<open>GetQueue\<close>
  returns no error and the size 0.
\<close>

theorem queue_without_size_succeeds:
  "Do queueNoSize ''/rest/api/latest/queue'' =
     Inr (Doc (JObject [(''queuedBuilds'',
            JObject [(''start-index'', JNumber ''0''), (''max-result'', JNumber ''25'')])]))
   \<and> snd (GetQueue queueNoSize) = None
   \<and> Size (QueuedBuilds (fst (GetQueue queueNoSize))) = 0"
  by code_simp

text \<open>
  Claim C5 as amended: for a JSON object response, when some \<open>queuedBuilds\<close> object has
  a size member that is a JSON string, boolean, array or object, \<open>GetQueue\<close> fails with
  an \<open>UnmarshalTypeError\<close>, which is not a transport or status error; when every
  \<open>queuedBuilds\<close> member is \<open>null\<close> or an object whose size is absent or \<open>null\<close> and
  whose other members fit, \<open>GetQueue\<close> succeeds with the size 0. A key names a member
  as the decoder reads it (\<open>equalFold\<close>): \<open>SIZE\<close>, or \<open>size\<close> written with a long s, is
  a size member too (lemma \<open>long_s_selects_size\<close>).
\<close>

theorem queue_size_decoding:
  assumes "Do e ''/rest/api/latest/queue'' = Inr (Doc (JObject ms))"
  shows "((\<exists>k qs k' j. (k, JObject qs) \<in> set ms \<and> equalFold ''queuedBuilds'' k
              \<and> (k', j) \<in> set qs \<and> equalFold ''size'' k' \<and> nonNumeric j)
            \<longrightarrow> (\<exists>v. snd (GetQueue e) = Some (UnmarshalTypeError v)))
         \<and> (list_all sizeLeftOutIn ms
            \<longrightarrow> snd (GetQueue e) = None \<and> Size (QueuedBuilds (fst (GetQueue e))) = 0)"
proof (intro conjI impI)
  assume "\<exists>k qs k' j. (k, JObject qs) \<in> set ms \<and> equalFold ''queuedBuilds'' k
              \<and> (k', j) \<in> set qs \<and> equalFold ''size'' k' \<and> nonNumeric j"
  then obtain k qs k' j where m: "(k, JObject qs) \<in> set ms" "equalFold ''queuedBuilds'' k"
      "(k', j) \<in> set qs" "equalFold ''size'' k'" "nonNumeric j"
    by blast
  have "typeError (snd (foldl queueMember (zeroQueue, None) ms))"
    by (rule foldl_queueMember_size [OF m]) simp
  then show "\<exists>v. snd (GetQueue e) = Some (UnmarshalTypeError v)"
    by (simp add: GetQueue_object [OF assms] typeError_iff)
next
  assume q: "list_all sizeLeftOutIn ms"
  show "snd (GetQueue e) = None"
    using foldl_queueMember_quiet [OF q, of "(zeroQueue, None)"]
    by (simp add: GetQueue_object [OF assms])
  show "Size (QueuedBuilds (fst (GetQueue e))) = 0"
    using foldl_queueMember_quiet [OF q, of "(zeroQueue, None)"]
    by (simp add: GetQueue_object [OF assms] zeroQueue_def)
qed

theorem queue_size_decoding_witness:
  "Do queueSizeString ''/rest/api/latest/queue'' =
     Inr (Doc (JObject [(''queuedBuilds'', JObject [(''size'', JString ''2'')])]))
   \<and> equalFold ''queuedBuilds'' ''queuedBuilds'' \<and> equalFold ''size'' ''size''
   \<and> nonNumeric (JString ''2'')
   \<and> typeError (snd (GetQueue queueSizeString))
   \<and> Do queueNoSize ''/rest/api/latest/queue'' =
     Inr (Doc (JObject [(''queuedBuilds'',
            JObject [(''start-index'', JNumber ''0''), (''max-result'', JNumber ''25'')])]))
   \<and> list_all sizeLeftOutIn [(''queuedBuilds'',
            JObject [(''start-index'', JNumber ''0''), (''max-result'', JNumber ''25'')])]
   \<and> snd (GetQueue queueNoSize) = None
   \<and> Size (QueuedBuilds (fst (GetQueue queueNoSize))) = 0"
proof -
  have d1: "Do queueSizeString ''/rest/api/latest/queue'' =
      Inr (Doc (JObject [(''queuedBuilds'', JObject [(''size'', JString ''2'')])]))"
    by code_simp
  have f: "equalFold ''queuedBuilds'' ''queuedBuilds''" "equalFold ''size'' ''size''"
    by (simp_all add: equalFold_def)
  have n: "nonNumeric (JString ''2'')"
    by simp
  have "\<exists>k qs k' j.
      (k, JObject qs) \<in> set [(''queuedBuilds'', JObject [(''size'', JString ''2'')])]
      \<and> equalFold ''queuedBuilds'' k \<and> (k', j) \<in> set qs \<and> equalFold ''size'' k'
      \<and> nonNumeric j"
    using f n by (intro exI [of _ "''queuedBuilds''"] exI [of _ "[(''size'', JString ''2'')]"]
        exI [of _ "''size''"] exI [of _ "JString ''2''"]) simp
  with queue_size_decoding [OF d1]
  have t: "typeError (snd (GetQueue queueSizeString))"
    by (simp only: typeError_iff)
  have d2: "Do queueNoSize ''/rest/api/latest/queue'' =
      Inr (Doc (JObject [(''queuedBuilds'',
             JObject [(''start-index'', JNumber ''0''), (''max-result'', JNumber ''25'')])]))"
    by code_simp
  have q: "list_all sizeLeftOutIn [(''queuedBuilds'',
            JObject [(''start-index'', JNumber ''0''), (''max-result'', JNumber ''25'')])]"
    by code_simp
  from queue_size_decoding [OF d2] q
  have "snd (GetQueue queueNoSize) = None \<and> Size (QueuedBuilds (fst (GetQueue queueNoSize))) = 0"
    by (simp only:)
  with d1 f n t d2 q show ?thesis
    by (simp only: simp_thms)
qed



section \<open>The labels of an agent row\<close>

text \<open>The host name label.\<close>

lemma replace_chunk:
  assumes "0 \<le> r"
  shows "map (\<lambda>c. if c = CHR '' '' then CHR ''_'' else c) (EncodeRune (toLowerRune T r)) =
         EncodeRune (if r = 0x20 then 0x5F else toLowerRune T r)"
proof (cases "r = 0x20")
  case True
  have "toLowerRune T 0x20 = 0x20"
    by (simp add: toLowerRune_space)
  moreover have "EncodeRune 0x20 = '' ''" "EncodeRune 0x5F = ''_''"
    by code_simp+
  ultimately show ?thesis
    using True by simp
next
  case False
  let ?x = "toLowerRune T r"
  have x: "0 \<le> ?x"
    using assms by (rule toLowerRune_nonneg)
  have ne: "?x \<noteq> 0x20"
    using False by (simp add: toLowerRune_space)
  have "c \<noteq> CHR '' ''" if "c \<in> set (EncodeRune ?x)" for c
    using EncodeRune_cases [OF x that]
  proof
    assume a: "?x \<le> 0x7F \<and> c = char_of ?x"
    then have "(of_char c :: nat) = nat ?x"
      using x by (simp add: char_of_low)
    with ne x have "(of_char c :: nat) \<noteq> 32"
      by simp
    then show ?thesis
      by auto
  next
    assume "128 \<le> (of_char c :: nat)"
    then show ?thesis
      by auto
  qed
  then have "map (\<lambda>c. if c = CHR '' '' then CHR ''_'' else c) (EncodeRune ?x) = EncodeRune ?x"
    by (simp add: map_idI)
  with False show ?thesis
    by simp
qed

lemma hostName_sent: "Replace (ToLower T s) '' '' ''_'' (- 1) = hostNameLabel T s"
proof -
  let ?repl = "\<lambda>c. if c = CHR '' '' then CHR ''_'' else c"
  let ?g = "\<lambda>r. if r = 0x20 then 0x5F else toLowerRune T r"
  have "Replace (ToLower T s) '' '' ''_'' (- 1) = map ?repl (ToLower T s)"
    by (rule Replace_space) simp
  also have "\<dots> = map ?repl (MapRunes (toLowerRune T) s)"
    by (simp only: ToLower_as_Map)
  also have "\<dots> = concat (map (\<lambda>r. map ?repl
      (if toLowerRune T r < 0 then [] else EncodeRune (toLowerRune T r))) (runes s))"
    by (simp add: MapRunes_def map_concat comp_def)
  also have "\<dots> = concat (map (\<lambda>r. if ?g r < 0 then [] else EncodeRune (?g r)) (runes s))"
  proof (intro arg_cong [where f = concat] map_cong refl)
    fix r
    assume "r \<in> set (runes s)"
    then have r: "0 \<le> r"
      by (rule runes_nonneg)
    then have "0 \<le> toLowerRune T r" "0 \<le> ?g r"
      by (simp_all add: toLowerRune_nonneg)
    then show "map ?repl (if toLowerRune T r < 0 then [] else EncodeRune (toLowerRune T r))
        = (if ?g r < 0 then [] else EncodeRune (?g r))"
      using replace_chunk [OF r, of T] by (simp add: not_less [symmetric])
  qed
  finally show ?thesis
    by (simp only: hostNameLabel_def MapRunes_def)
qed

lemma set_upperAZ: "set upperAZ = fst ` set (zip upperAZ lowerAZ)"
proof -
  have "map fst (zip upperAZ lowerAZ) = upperAZ"
    by (rule map_fst_zip) (simp add: upperAZ_def lowerAZ_def)
  then show ?thesis
    by (metis set_map)
qed

lemma lowerOf_eq: "lowerOf c = toLowerByte c"
proof (cases "map_of (zip upperAZ lowerAZ) c")
  case None
  then have "c \<notin> set upperAZ"
    by (simp add: map_of_eq_None_iff set_upperAZ)
  then have "(of_char (toLowerByte c) :: nat) = of_char c"
    unfolding upperAZ_iff of_char_toLowerByte by simp
  then have "toLowerByte c = c"
    by (simp only: of_char_eq_iff)
  with None show ?thesis
    by (simp add: lowerOf_def)
next
  case (Some l)
  then have "(c, l) \<in> set (zip upperAZ lowerAZ)"
    by (rule map_of_SomeD)
  then have "(of_char (toLowerByte c) :: nat) = of_char l"
    unfolding zip_AZ_iff of_char_toLowerByte by simp
  then have "toLowerByte c = l"
    by (simp only: of_char_eq_iff)
  with Some show ?thesis
    by (simp add: lowerOf_def)
qed

lemma hostNameLabel_ascii: "isASCII s \<Longrightarrow> hostNameLabel T s = asciiHostNameLabel s"
proof -
  assume a: "isASCII s"
  have "hostNameLabel T s = Replace (ToLower T s) '' '' ''_'' (- 1)"
    by (simp only: hostName_sent)
  also have "\<dots> = map (\<lambda>c. if c = CHR '' '' then CHR ''_'' else c) (map toLowerByte s)"
    using a by (simp add: Replace_space ToLower_def)
  also have "\<dots> = map (\<lambda>c. if toLowerByte c = CHR '' '' then CHR ''_'' else toLowerByte c) s"
    by (simp add: comp_def)
  also have "\<dots> = asciiHostNameLabel s"
    by (simp only: toLowerByte_space lowerOf_eq asciiHostNameLabel_def)
  finally show ?thesis .
qed

lemma hostNameLabel_no_upper: "set (hostNameLabel T s) \<inter> set upperAZ = {}"
proof -
  have "set (hostNameLabel T s) \<subseteq> insert (CHR ''_'') (set (ToLower T s))"
    unfolding hostName_sent [symmetric] by (auto simp: Replace_space)
  moreover have "CHR ''_'' \<notin> set upperAZ"
    by (simp add: upperAZ_def)
  ultimately show ?thesis
    using ToLower_no_upper [of T s] by blast
qed

lemma hostNameLabel_no_space: "CHR '' '' \<notin> set (hostNameLabel T s)"
  unfolding hostName_sent [symmetric] by (auto simp: Replace_space)

lemma agentRow_hostName:
  "label ''hostName'' (agentRow T a) = Some (hostNameLabel T (HostName a))"
  by (simp add: label_def agentRow_def MustNewConstMetric_def buildAgent_def hostName_sent)

lemma agentRow_isRemote:
  "label ''isRemote'' (agentRow T a) =
     Some (if equalsIgnoringCase (IsRemote a) ''remote'' then ''yes'' else ''no'')"
  by (simp add: label_def agentRow_def MustNewConstMetric_def buildAgent_def ToLower_remote)

text \<open>
  Claim C6: the \<open>hostName\<close> label of the row sent for an agent is the agent's host name
  in lower case with every space replaced by an underscore, so it holds no uppercase
  letter and no space. Counterexample: the host name that is the one letter \<open>U+03D2\<close>,
  an uppercase letter with no lower case in Unicode's table. \<open>strings.ToLower\<close> leaves
  it, and the label sent is that uppercase letter.
\<close>

theorem uppercase_without_lower_case_stays:
  "runes [CHR 0xCF, CHR 0x92] = [upsilonHook]
   \<and> latin1 upsilonHook = upsilonHook
   \<and> map HostName (fst (GetAgents upsilon)) = [[CHR 0xCF, CHR 0x92]]
   \<and> map (label ''hostName'') (agentRows (ch (Collect_Exporter latin1 upsilon))) =
       [Some [CHR 0xCF, CHR 0x92]]"
  by code_simp

text \<open>
  Claim C6 as amended: the \<open>hostName\<close> label of the row sent for an agent is the agent's
  host name with, rune by rune, every space replaced by an underscore and every other
  rune by its lower-case rune under \<open>unicode.ToLower\<close> (\<open>hostNameLabel\<close>, for every host
  name and every case table). For an ASCII host name that is the host name with each
  capital letter replaced by the small letter at its place of the alphabet and each space
  by an underscore. No label holds a space or one of the letters A to Z, and
  \<open>Build Node 1\<close> gives \<open>build_node_1\<close>.
\<close>

theorem host_name_label:
  assumes "standardNames e"
  shows "map (label ''hostName'') (agentRows (ch (Collect_Exporter T e))) =
           map (\<lambda>a. Some (hostNameLabel T (HostName a))) (fst (GetAgents e))
         \<and> (isASCII s \<longrightarrow> hostNameLabel T s = asciiHostNameLabel s)
         \<and> set (hostNameLabel T s) \<inter> set upperAZ = {}
         \<and> CHR '' '' \<notin> set (hostNameLabel T s)
         \<and> hostNameLabel T ''Build Node 1'' = ''build_node_1''"
proof -
  have "isASCII ''Build Node 1''" "asciiHostNameLabel ''Build Node 1'' = ''build_node_1''"
    by code_simp+
  then have "hostNameLabel T ''Build Node 1'' = ''build_node_1''"
    by (simp add: hostNameLabel_ascii)
  then show ?thesis
    using assms
    by (simp add: rows_sent agentRow_hostName hostNameLabel_ascii hostNameLabel_no_upper
        hostNameLabel_no_space)
qed

theorem host_name_label_witness:
  "standardNames ecole
   \<and> map HostName (fst (GetAgents ecole)) = [[CHR 0xC3, CHR 0x89] @ ''COLE Z'']
   \<and> map (label ''hostName'') (agentRows (ch (Collect_Exporter latin1 ecole))) =
       [Some ([CHR 0xC3, CHR 0xA9] @ ''cole_z'')]
   \<and> isASCII ''Build Node 1''
   \<and> hostNameLabel latin1 ''Build Node 1'' = asciiHostNameLabel ''Build Node 1''
   \<and> asciiHostNameLabel ''Build Node 1'' = ''build_node_1''"
proof -
  have h: "standardNames ecole"
    by code_simp
  have g: "fst (GetAgents ecole) =
      [\<lparr>AgentId = 9, HostName = [CHR 0xC3, CHR 0x89] @ ''COLE Z'', IsRemote = ''REMOTE'',
        IsActive = True, IsEnabled = True, IsWorking = True\<rparr>]"
    by code_simp
  have l: "hostNameLabel latin1 ([CHR 0xC3, CHR 0x89] @ ''COLE Z'') = [CHR 0xC3, CHR 0xA9] @ ''cole_z''"
    by code_simp
  have a: "isASCII ''Build Node 1''" "asciiHostNameLabel ''Build Node 1'' = ''build_node_1''"
    by code_simp+
  show ?thesis
    using h a l host_name_label [OF h, of latin1 "''Build Node 1''"] by (simp add: g)
qed

text \<open>
  Claim C7: the \<open>isRemote\<close> label of the row sent for an agent is \<open>yes\<close> if and only if
  the agent's type equals \<open>remote\<close> up to case, and \<open>no\<close> for every other string, the
  empty one included. This holds for every case table: a type with a byte outside ASCII
  is never lowered to \<open>remote\<close>.
\<close>

theorem remote_label:
  assumes "standardNames e"
  shows "map (label ''isRemote'') (agentRows (ch (Collect_Exporter T e))) =
           map (\<lambda>a. Some (if equalsIgnoringCase (IsRemote a) ''remote'' then ''yes'' else ''no''))
             (fst (GetAgents e))
         \<and> equalsIgnoringCase ''Remote'' ''remote'' \<and> equalsIgnoringCase ''REMOTE'' ''remote''
         \<and> \<not> equalsIgnoringCase ''local'' ''remote'' \<and> \<not> equalsIgnoringCase [] ''remote''"
proof -
  have "equalsIgnoringCase ''Remote'' ''remote''" "equalsIgnoringCase ''REMOTE'' ''remote''"
    "\<not> equalsIgnoringCase ''local'' ''remote''" "\<not> equalsIgnoringCase [] ''remote''"
    by code_simp+
  then show ?thesis
    using assms by (simp add: rows_sent agentRow_isRemote)
qed


theorem remote_label_witness:
  "standardNames scenario
   \<and> map IsRemote (fst (GetAgents scenario)) = [''remote'', ''local'']
   \<and> map (label ''isRemote'') (agentRows (ch (Collect_Exporter latin1 scenario))) =
       [Some ''yes'', Some ''no'']"
proof -
  have h: "standardNames scenario"
    by code_simp
  have g: "fst (GetAgents scenario) =
      [\<lparr>AgentId = 1, HostName = ''A'', IsRemote = ''remote'', IsActive = True,
          IsEnabled = True, IsWorking = True\<rparr>,
        \<lparr>AgentId = 2, HostName = ''B'', IsRemote = ''local'', IsActive = False,
          IsEnabled = True, IsWorking = False\<rparr>]"
    by code_simp
  have c: "equalsIgnoringCase ''remote'' ''remote''" "\<not> equalsIgnoringCase ''local'' ''remote''"
    by code_simp+
  show ?thesis
    using h remote_label [OF h] by (simp add: g c)
qed


section \<open>The shape of a scrape\<close>

text \<open>
  Claim C8: every scrape sends each of the five fixed gauges exactly once and one agent
  row for each agent returned, with no row when \<open>GetAgents\<close> failed or returned none.
  For every exporter the names sent are those of lemma \<open>Collect_names\<close>: the five gauges
  once each, and one row for each element of the list \<open>GetAgents\<close> returned. That list is
  not empty when the decoder met a member of the wrong type after decoding an agent: the
  call has failed and a row is sent all the same.
\<close>

theorem rows_although_agents_failed:
  "snd (GetAgents agentsMistyped) \<noteq> None
   \<and> map metricName (ch (Collect_Exporter T agentsMistyped)) =
       [''bamboo_running'', ''bamboo_agent_count_total'', ''bamboo_agent_busy'',
        ''bamboo_agent_count_busy'', ''bamboo_queue_count'', ''bamboo_up'']"
  by code_simp

text \<open>
  Claim C9: two consecutive scrapes against the same upstream give the same metrics.
  The second scrape starts from the gauges the first one left, and sends the same
  metrics, leaves the same gauges and logs the same errors.
\<close>

theorem scrape_twice:
  "ch (Collect_Exporter T (exporter (Collect_Exporter T e))) = ch (Collect_Exporter T e)
   \<and> exporter (Collect_Exporter T (exporter (Collect_Exporter T e))) = exporter (Collect_Exporter T e)
   \<and> logged (Collect_Exporter T (exporter (Collect_Exporter T e))) = logged (Collect_Exporter T e)"
proof -
  let ?e' = "exporter (Collect_Exporter T e)"
  have g: "GetVersion ?e' = GetVersion e" "GetAgents ?e' = GetAgents e" "GetQueue ?e' = GetQueue e"
    by (rule Get_cong [OF sameUpstream_Collect])+
  have n: "fqName (up ?e') = fqName (up e)" "fqName (isRunning ?e') = fqName (isRunning e)"
    "fqName (agentCountTotal ?e') = fqName (agentCountTotal e)"
    "fqName (agentCountBusy ?e') = fqName (agentCountBusy e)"
    "fqName (buildQueue ?e') = fqName (buildQueue e)"
    by (simp_all add: Collect_exporter)
  have "ch (Collect_Exporter T ?e') = ch (Collect_Exporter T e)"
    by (simp only: Collect_ch [of T ?e'] g n Collect_ch [of T e])
  moreover have "exporter (Collect_Exporter T ?e') = ?e'"
    by (simp only: Collect_exporter [of T ?e'] g n) (simp add: Collect_exporter)
  moreover have "logged (Collect_Exporter T ?e') = logged (Collect_Exporter T e)"
    by (simp only: Collect_logged g)
  ultimately show ?thesis
    by simp
qed

text \<open>
  Claim C10: in every scrape the busy count sent is at most the total sent.
\<close>

theorem busy_at_most_total:
  assumes "standardNames e"
  shows "\<exists>b t. gaugeSamples ''bamboo_agent_count_busy'' (ch (Collect_Exporter T e)) = [b]
           \<and> gaugeSamples ''bamboo_agent_count_total'' (ch (Collect_Exporter T e)) = [t]
           \<and> b \<le> t"
  using assms by (simp add: samples_busy samples_total)


theorem busy_at_most_total_witness:
  "standardNames scenario
   \<and> gaugeSamples ''bamboo_agent_count_busy'' (ch (Collect_Exporter latin1 scenario)) = [1]
   \<and> gaugeSamples ''bamboo_agent_count_total'' (ch (Collect_Exporter latin1 scenario)) = [2]
   \<and> (1::int) \<le> 2"
proof -
  have h: "standardNames scenario"
    by code_simp
  have b: "gaugeSamples ''bamboo_agent_count_busy'' (ch (Collect_Exporter latin1 scenario)) = [1]"
    and t: "gaugeSamples ''bamboo_agent_count_total'' (ch (Collect_Exporter latin1 scenario)) = [2]"
    by code_simp+
  from busy_at_most_total [OF h] b t have "(1::int) \<le> 2"
    by simp
  with h b t show ?thesis
    by simp
qed

end
